theory Spec2Isabelle
  imports Main "HOL-Library.Word"
begin

section \<open>Values of the host language\<close>

text \<open>
  The client is JavaScript. A frame is a \<^verbatim>\<open>Uint8Array\<close> (\<^verbatim>\<open>parseGltfBlob\<close> builds one
  before it calls \<^verbatim>\<open>parseFrame\<close>), a list of bytes here. Messages are the values
  \<^verbatim>\<open>JSON.parse\<close> returns, together with \<^verbatim>\<open>undefined\<close>, the \<^verbatim>\<open>Blob\<close> the
  connection manager wraps a payload in, and a thrown error held as a value. Strings are
  lists of code units below 256, which is what \<^verbatim>\<open>String.fromCharCode\<close> makes of bytes.
  A number is \<open>JNum n\<close> when it is an integer a double holds exactly; any other
  number is \<open>JFloat\<close> with its literal text, and its floating-point value is not modelled.
  An exception is one of the three the engine and the browser raise in this code, or
  whatever a callable of the caller throws, \<open>Thrown\<close> with a description.
\<close>

type_synonym byte = "8 word"

datatype error = TypeError | SyntaxError | InvalidStateError | Thrown string

datatype jsval =
    JUndefined
  | JNull
  | JBool bool
  | JNum int
  | JFloat string
  | JStr string
  | JArr "jsval list"
  | JObj "(string \<times> jsval) list"
  | JBlob "byte list" string
  | JError error

text \<open>
  What the platform (the ECMAScript engine and the browser) and the caller of the class do
  and the repository does not define is a parameter of the model. Each entry is consulted
  only outside the part that is modelled concretely:
  \<^item> \<open>JSON_parse\<close>: \<^verbatim>\<open>JSON.parse\<close>, \<open>None\<close> when it throws a SyntaxError;
  \<^item> \<open>ToBoolean_float\<close>: the truthiness of a number that is not a \<open>JNum\<close>;
  \<^item> \<open>ToPropertyKey\<close>: the property key of a value that is not a string;
  \<^item> \<open>GetInherited\<close>: the value of a property read that finds none of the own properties
    modelled here (a property of the prototype chain, of a Blob or of an error object;
    \<^verbatim>\<open>undefined\<close> when there is none);
  \<^item> \<open>ToIntegerOfSum\<close>: the integer \<^verbatim>\<open>slice\<close> makes of \<^verbatim>\<open>pos + v\<close> when \<open>v\<close> is a
    string, an array, an object or a \<open>JFloat\<close> (string concatenation, floating point);
  \<^item> \<open>WebSocket_accepts\<close>: whether \<^verbatim>\<open>new WebSocket(url)\<close> returns rather than throws;
  \<^item> \<open>Call\<close>: what a callable of the caller does when the dispatcher calls it,
    \<^verbatim>\<open>handler.call(this, msg)\<close>. The callables are numbered. Given the message and the
    client (the state type \<open>'st\<close>, fixed further down), the entry gives the client the call
    leaves behind and the exception it throws, if any. The callable runs with the client
    as \<^verbatim>\<open>this\<close> and may do to it whatever the language allows.
\<close>

record 'st platform =
  JSON_parse :: "string \<Rightarrow> jsval option"
  ToBoolean_float :: "string \<Rightarrow> bool"
  ToPropertyKey :: "jsval \<Rightarrow> string"
  GetInherited :: "jsval \<Rightarrow> string \<Rightarrow> jsval"
  ToIntegerOfSum :: "int \<Rightarrow> jsval \<Rightarrow> int"
  WebSocket_accepts :: "jsval \<Rightarrow> bool"
  Call :: "nat \<Rightarrow> jsval \<Rightarrow> 'st \<Rightarrow> 'st \<times> error option"

subsection \<open>Array and string primitives\<close>

text \<open>
  \<^verbatim>\<open>slice(start, end)\<close> of arrays and typed arrays: a negative index counts from the
  end, both indices are clamped to the length, and an end before the start gives the empty
  slice. It never throws.
\<close>

definition relative_index :: "nat \<Rightarrow> int \<Rightarrow> nat" where
  "relative_index len i = (if i < 0 then nat (max (int len + i) 0) else min (nat i) len)"

definition js_slice :: "'a list \<Rightarrow> int \<Rightarrow> int \<Rightarrow> 'a list" where
  "js_slice xs start fin =
     (let k = relative_index (length xs) start;
          final = relative_index (length xs) fin
      in take (final - k) (drop k xs))"

text \<open>\<^verbatim>\<open>String.fromCharCode.apply(null, bytes)\<close>: one code unit per byte.\<close>

definition fromCharCode :: "byte list \<Rightarrow> string" where
  "fromCharCode bs = map (\<lambda>b. char_of (unat b)) bs"

text \<open>
  \<^verbatim>\<open>String.prototype.trim\<close>: the white space and line terminators of ECMAScript that are
  code units below 256 are TAB, LF, VT, FF, CR, SP and NBSP.
\<close>

definition js_space :: "char \<Rightarrow> bool" where
  "js_space c = (of_char c \<in> {9, 10, 11, 12, 13, 32, 160 :: nat})"

definition trim :: "string \<Rightarrow> string" where
  "trim s = rev (dropWhile js_space (rev (dropWhile js_space s)))"

text \<open>
  \<^verbatim>\<open>toString\<close> of a \<^verbatim>\<open>Uint8Array\<close> is \<^verbatim>\<open>Array.prototype.join\<close>: the elements in
  decimal, separated by commas. Its argument is ignored.
\<close>

definition digit_char :: "nat \<Rightarrow> char" where
  "digit_char d = char_of (48 + d)"

definition decimal_of_byte :: "byte \<Rightarrow> string" where
  "decimal_of_byte b =
     (let n = unat b in
      if n < 10 then [digit_char n]
      else if n < 100 then [digit_char (n div 10), digit_char (n mod 10)]
      else [digit_char (n div 100), digit_char (n div 10 mod 10), digit_char (n mod 10)])"

fun join_commas :: "string list \<Rightarrow> string" where
  "join_commas [] = []"
| "join_commas [x] = x"
| "join_commas (x # y # ys) = x @ '','' @ join_commas (y # ys)"

definition uint8_toString :: "byte list \<Rightarrow> string" where
  "uint8_toString bs = join_commas (map decimal_of_byte bs)"

text \<open>\<^verbatim>\<open>s.replace(/\0/g, '')\<close>: every NUL code unit removed.\<close>

definition strip_nul :: "string \<Rightarrow> string" where
  "strip_nul s = filter (\<lambda>c. c \<noteq> CHR 0x00) s"

subsection \<open>Property reads\<close>

text \<open>
  A JSON object keeps its members in the order of the text; of two members with one name
  the later one is the property. \<open>get_field\<close> is the read \<^verbatim>\<open>v.name\<close> for the fixed names
  the source uses (\<^verbatim>\<open>filesize\<close>, \<^verbatim>\<open>request\<close>, \<^verbatim>\<open>camera\<close>, \<^verbatim>\<open>status\<close>,
  \<^verbatim>\<open>session_id\<close>, \<^verbatim>\<open>stations\<close>, \<^verbatim>\<open>station_id\<close>, \<^verbatim>\<open>response_to\<close>, \<^verbatim>\<open>code\<close>,
  \<^verbatim>\<open>reason\<close>, \<^verbatim>\<open>wasClean\<close>), none of which a standard prototype defines: it throws a
  TypeError on \<^verbatim>\<open>undefined\<close> and \<^verbatim>\<open>null\<close>, gives the own property of an object and
  \<^verbatim>\<open>undefined\<close> otherwise.
\<close>

definition own_member :: "(string \<times> jsval) list \<Rightarrow> string \<Rightarrow> jsval option" where
  "own_member kvs name = map_of (rev kvs) name"

definition get_field :: "jsval \<Rightarrow> string \<Rightarrow> error + jsval" where
  "get_field v name =
     (case v of
        JUndefined \<Rightarrow> Inl TypeError
      | JNull \<Rightarrow> Inl TypeError
      | JObj kvs \<Rightarrow> Inr (case own_member kvs name of Some x \<Rightarrow> x | None \<Rightarrow> JUndefined)
      | _ \<Rightarrow> Inr JUndefined)"

section \<open>The frame decoder (gltfutils)\<close>

text \<open>
  \<^verbatim>\<open>bufferToInt32\<close> reads the first four bytes as a little-endian signed 32-bit integer
  through a \<^verbatim>\<open>DataView\<close>. On a buffer of fewer than four bytes \<^verbatim>\<open>getInt32\<close> throws a
  RangeError, which the function catches: it logs the error and returns 0.
\<close>

definition bufferToInt32 :: "byte list \<Rightarrow> int" where
  "bufferToInt32 buf =
     (case buf of
        b0 # b1 # b2 # b3 # _ \<Rightarrow> sint (word_rcat [b3, b2, b1, b0] :: 32 word)
      | _ \<Rightarrow> 0)"

text \<open>
  The record \<^verbatim>\<open>glTF\<close> that \<^verbatim>\<open>parseFrame\<close> fills in. A property the function has not
  assigned is \<open>None\<close>. \<^verbatim>\<open>state\<close> is the string \<^verbatim>\<open>'OK'\<close> or the object
  \<^verbatim>\<open>{status, error}\<close>.
\<close>

datatype gltf_state = State_OK | State_Failed string error

record gltf =
  tag :: string
  version :: int
  frameLength :: int
  msgLength :: int
  msgType :: string
  event :: "jsval option"
  state :: gltf_state
  dataLength :: "int option"
  dataType :: "string option"
  data :: "byte list option"

text \<open>
  The end index of the payload, \<^verbatim>\<open>pos + bytes\<close> as \<^verbatim>\<open>slice\<close> reads it: a missing
  \<^verbatim>\<open>filesize\<close> makes the sum NaN, which \<^verbatim>\<open>slice\<close> reads as 0; \<^verbatim>\<open>null\<close> and booleans
  are numbers in a sum. The sum of two integers is exact up to \<open>2 ^ 53\<close>, and beyond that
  both the exact and the rounded sum exceed every buffer length, so \<^verbatim>\<open>slice\<close> cannot tell
  them apart.
\<close>

definition end_index :: "'st platform \<Rightarrow> int \<Rightarrow> jsval \<Rightarrow> int" where
  "end_index P pos bytes =
     (case bytes of
        JUndefined \<Rightarrow> 0
      | JNull \<Rightarrow> pos
      | JBool b \<Rightarrow> pos + (if b then 1 else 0)
      | JNum n \<Rightarrow> pos + n
      | _ \<Rightarrow> ToIntegerOfSum P pos bytes)"

text \<open>
  \<^verbatim>\<open>parseFrame\<close>. The header is read at fixed offsets; the text of \<^verbatim>\<open>msgLength\<close> bytes
  from offset 20 is trimmed and parsed. When \<^verbatim>\<open>JSON.parse\<close> throws, the \<^verbatim>\<open>catch\<close>
  returns the record with the failure state. Otherwise the function reads
  \<^verbatim>\<open>dataLength\<close> and \<^verbatim>\<open>dataType\<close> and slices \<^verbatim>\<open>event.filesize\<close> bytes; the read of
  \<^verbatim>\<open>filesize\<close> is outside the \<^verbatim>\<open>try\<close> and throws a TypeError when the event is
  \<^verbatim>\<open>null\<close>. The two \<^verbatim>\<open>console.log\<close> calls are not modelled, and neither is the
  engine's limit on the number of arguments of \<^verbatim>\<open>apply\<close>, a limit of resources.
\<close>

definition parseFrame :: "'st platform \<Rightarrow> byte list \<Rightarrow> error + gltf" where
  "parseFrame P frame =
     (let tag0 = fromCharCode (js_slice frame 0 4);
          version0 = bufferToInt32 (js_slice frame 4 8);
          frameLength0 = bufferToInt32 (js_slice frame 8 12);
          msgLength0 = bufferToInt32 (js_slice frame 12 16);
          msgType0 = fromCharCode (js_slice frame 16 20);
          pos = 20 + msgLength0;
          msg = trim (fromCharCode (js_slice frame 20 pos))
      in case JSON_parse P msg of
           None \<Rightarrow>
             Inr \<lparr>tag = tag0, version = version0, frameLength = frameLength0,
                  msgLength = msgLength0, msgType = msgType0, event = None,
                  state = State_Failed ''ERROR_FILE_BAD_JSON'' SyntaxError,
                  dataLength = None, dataType = None, data = None\<rparr>
         | Some ev \<Rightarrow>
             (let dataLength0 = bufferToInt32 (js_slice frame pos (pos + 4));
                  dataType0 = strip_nul (uint8_toString (js_slice frame (pos + 4) (pos + 8)));
                  pos' = pos + 8
              in case get_field ev ''filesize'' of
                   Inl e \<Rightarrow> Inl e
                 | Inr bytes \<Rightarrow>
                     Inr \<lparr>tag = tag0, version = version0, frameLength = frameLength0,
                          msgLength = msgLength0, msgType = msgType0, event = Some ev,
                          state = State_OK,
                          dataLength = Some dataLength0, dataType = Some dataType0,
                          data = Some (js_slice frame pos' (end_index P pos' bytes))\<rparr>))"

section \<open>A JSON decoder\<close>

text \<open>
  The scenarios at the end run on a concrete platform, whose \<^verbatim>\<open>JSON.parse\<close> this
  section defines: a recursive descent over the JSON grammar (RFC 8259). White space is
  SP, TAB, LF and CR; a string may not hold a control character; a number may not start
  with a superfluous zero. An escape \<^verbatim>\<open>\uXXXX\<close> above \<^verbatim>\<open>00FF\<close> denotes a code unit
  that \<open>string\<close> cannot hold, and this decoder has no result for it. Every recursive call
  consumes fuel. Along a chain of calls any two steps consume a character of the text, so
  the decoder starts with twice the length of the text and two more.
\<close>

definition json_ws :: "char \<Rightarrow> bool" where
  "json_ws c = (of_char c \<in> {32, 9, 10, 13 :: nat})"

definition skip_ws :: "string \<Rightarrow> string" where
  "skip_ws s = dropWhile json_ws s"

definition is_digit :: "char \<Rightarrow> bool" where
  "is_digit c = (48 \<le> (of_char c :: nat) \<and> (of_char c :: nat) \<le> 57)"

definition hex_value :: "char \<Rightarrow> nat option" where
  "hex_value c =
     (let n = (of_char c :: nat) in
      if 48 \<le> n \<and> n \<le> 57 then Some (n - 48)
      else if 65 \<le> n \<and> n \<le> 70 then Some (n - 55)
      else if 97 \<le> n \<and> n \<le> 102 then Some (n - 87)
      else None)"

definition escape_char :: "char \<Rightarrow> char option" where
  "escape_char e =
     (if e = CHR 0x22 then Some (CHR 0x22)
      else if e = CHR 0x5C then Some (CHR 0x5C)
      else if e = CHR ''/'' then Some (CHR ''/'')
      else if e = CHR ''b'' then Some (CHR 0x08)
      else if e = CHR ''f'' then Some (CHR 0x0C)
      else if e = CHR ''n'' then Some (CHR 0x0A)
      else if e = CHR ''r'' then Some (CHR 0x0D)
      else if e = CHR ''t'' then Some (CHR 0x09)
      else None)"

definition cons_fst :: "'a \<Rightarrow> ('a list \<times> 'b) option \<Rightarrow> ('a list \<times> 'b) option" where
  "cons_fst x r = map_option (\<lambda>(xs, rest). (x # xs, rest)) r"

fun json_string :: "string \<Rightarrow> (string \<times> string) option" where
  "json_string [] = None"
| "json_string (c # cs) =
     (if c = CHR 0x22 then Some ([], cs)
      else if c = CHR 0x5C then
        (case cs of
           [] \<Rightarrow> None
         | e # cs' \<Rightarrow>
             if e = CHR ''u'' then
               (case cs' of
                  h1 # h2 # h3 # h4 # cs'' \<Rightarrow>
                    (case (hex_value h1, hex_value h2, hex_value h3, hex_value h4) of
                       (Some a, Some b, Some x, Some y) \<Rightarrow>
                         if a = 0 \<and> b = 0 then cons_fst (char_of (16 * x + y)) (json_string cs'')
                         else None
                     | _ \<Rightarrow> None)
                | _ \<Rightarrow> None)
             else
               (case escape_char e of
                  None \<Rightarrow> None
                | Some x \<Rightarrow> cons_fst x (json_string cs')))
      else if (of_char c :: nat) < 32 then None
      else cons_fst c (json_string cs))"

definition digits_value :: "string \<Rightarrow> int" where
  "digits_value ds = foldl (\<lambda>acc c. 10 * acc + int (of_char c - (48::nat))) 0 ds"

definition json_fraction :: "string \<Rightarrow> (string \<times> string) option" where
  "json_fraction s =
     (case s of
        c # r \<Rightarrow>
          if c = CHR ''.'' then
            (if takeWhile is_digit r = [] then None
             else Some (c # takeWhile is_digit r, dropWhile is_digit r))
          else Some ([], s)
      | [] \<Rightarrow> Some ([], s))"

definition json_exponent :: "string \<Rightarrow> (string \<times> string) option" where
  "json_exponent s =
     (case s of
        c # r \<Rightarrow>
          if c = CHR ''e'' \<or> c = CHR ''E'' then
            (let (sign, r') =
                   (case r of
                      d # r'' \<Rightarrow> if d = CHR ''+'' \<or> d = CHR ''-'' then ([d], r'') else ([], r)
                    | [] \<Rightarrow> ([], r))
             in if takeWhile is_digit r' = [] then None
                else Some (c # sign @ takeWhile is_digit r', dropWhile is_digit r'))
          else Some ([], s)
      | [] \<Rightarrow> Some ([], s))"

definition json_number :: "string \<Rightarrow> (jsval \<times> string) option" where
  "json_number s =
     (let (sign, s1) =
            (case s of
               c # r \<Rightarrow> if c = CHR ''-'' then ([c], r) else ([], s)
             | [] \<Rightarrow> ([], s));
          ds = takeWhile is_digit s1
      in if ds = [] \<or> (1 < length ds \<and> hd ds = CHR ''0'') then None
         else
           (case json_fraction (dropWhile is_digit s1) of
              None \<Rightarrow> None
            | Some (fr, s2) \<Rightarrow>
                (case json_exponent s2 of
                   None \<Rightarrow> None
                 | Some (ex, s3) \<Rightarrow>
                     if fr = [] \<and> ex = [] \<and> digits_value ds \<le> 2 ^ 53 then
                       Some (JNum (if sign = [] then digits_value ds else - digits_value ds), s3)
                     else Some (JFloat (sign @ ds @ fr @ ex), s3))))"

definition literal :: "string \<Rightarrow> jsval \<Rightarrow> string \<Rightarrow> (jsval \<times> string) option" where
  "literal word v s =
     (if take (length word) s = word then Some (v, drop (length word) s) else None)"

fun json_value :: "nat \<Rightarrow> string \<Rightarrow> (jsval \<times> string) option"
and json_elements :: "nat \<Rightarrow> string \<Rightarrow> (jsval list \<times> string) option"
and json_members :: "nat \<Rightarrow> string \<Rightarrow> ((string \<times> jsval) list \<times> string) option" where
  "json_value 0 s = None"
| "json_value (Suc n) s =
     (case skip_ws s of
        [] \<Rightarrow> None
      | c # cs \<Rightarrow>
          if c = CHR ''{'' then
            (case skip_ws cs of
               [] \<Rightarrow> None
             | d # r \<Rightarrow>
                 if d = CHR ''}'' then Some (JObj [], r)
                 else map_option (\<lambda>(kvs, rest). (JObj kvs, rest)) (json_members n (d # r)))
          else if c = CHR ''['' then
            (case skip_ws cs of
               [] \<Rightarrow> None
             | d # r \<Rightarrow>
                 if d = CHR '']'' then Some (JArr [], r)
                 else map_option (\<lambda>(vs, rest). (JArr vs, rest)) (json_elements n (d # r)))
          else if c = CHR 0x22 then
            map_option (\<lambda>(str, rest). (JStr str, rest)) (json_string cs)
          else if c = CHR ''t'' then literal ''true'' (JBool True) (c # cs)
          else if c = CHR ''f'' then literal ''false'' (JBool False) (c # cs)
          else if c = CHR ''n'' then literal ''null'' JNull (c # cs)
          else json_number (c # cs))"
| "json_elements 0 s = None"
| "json_elements (Suc n) s =
     (case json_value n s of
        None \<Rightarrow> None
      | Some (v, r) \<Rightarrow>
          (case skip_ws r of
             [] \<Rightarrow> None
           | c # r' \<Rightarrow>
               if c = CHR '','' then cons_fst v (json_elements n r')
               else if c = CHR '']'' then Some ([v], r')
               else None))"
| "json_members 0 s = None"
| "json_members (Suc n) s =
     (case skip_ws s of
        [] \<Rightarrow> None
      | q # cs \<Rightarrow>
          if q = CHR 0x22 then
            (case json_string cs of
               None \<Rightarrow> None
             | Some (k, r) \<Rightarrow>
                 (case skip_ws r of
                    [] \<Rightarrow> None
                  | c # r' \<Rightarrow>
                      if c = CHR '':'' then
                        (case json_value n r' of
                           None \<Rightarrow> None
                         | Some (v, r'') \<Rightarrow>
                             (case skip_ws r'' of
                                [] \<Rightarrow> None
                              | d # r3 \<Rightarrow>
                                  if d = CHR '','' then cons_fst (k, v) (json_members n r3)
                                  else if d = CHR ''}'' then Some ([(k, v)], r3)
                                  else None))
                      else None))
          else None)"

definition json_decode :: "string \<Rightarrow> jsval option" where
  "json_decode s =
     (case json_value (2 * length s + 2) s of
        None \<Rightarrow> None
      | Some (v, rest) \<Rightarrow> if skip_ws rest = [] then Some v else None)"

section \<open>The client (B3d4api)\<close>

subsection \<open>Coercions\<close>

text \<open>
  \<^verbatim>\<open>!v\<close> and \<^verbatim>\<open>if (v)\<close>: \<^verbatim>\<open>undefined\<close>, \<^verbatim>\<open>null\<close>, \<^verbatim>\<open>false\<close>, 0 and the empty
  string are falsy; every object is truthy.
\<close>

definition truthy :: "'st platform \<Rightarrow> jsval \<Rightarrow> bool" where
  "truthy P v =
     (case v of
        JUndefined \<Rightarrow> False
      | JNull \<Rightarrow> False
      | JBool b \<Rightarrow> b
      | JNum n \<Rightarrow> n \<noteq> 0
      | JFloat s \<Rightarrow> ToBoolean_float P s
      | JStr s \<Rightarrow> s \<noteq> []
      | _ \<Rightarrow> True)"

text \<open>The key under which \<^verbatim>\<open>obj[v]\<close> reads or writes: a string is its own key.\<close>

definition property_key :: "'st platform \<Rightarrow> jsval \<Rightarrow> string" where
  "property_key P v = (case v of JStr s \<Rightarrow> s | _ \<Rightarrow> ToPropertyKey P v)"

text \<open>
  The read \<^verbatim>\<open>obj[k]\<close> with a computed key. The own properties of an object are its
  members, those of an array its elements (under their decimal indices) and
  \<^verbatim>\<open>length\<close>, those of a string its code units and \<^verbatim>\<open>length\<close>. A read of
  \<^verbatim>\<open>undefined\<close> or \<^verbatim>\<open>null\<close> throws.
\<close>

definition array_index :: "string \<Rightarrow> nat option" where
  "array_index key =
     (if key \<noteq> [] \<and> list_all is_digit key \<and> (key = ''0'' \<or> hd key \<noteq> CHR ''0'')
      then Some (nat (digits_value key)) else None)"

definition own_property :: "jsval \<Rightarrow> string \<Rightarrow> jsval option" where
  "own_property obj key =
     (case obj of
        JObj kvs \<Rightarrow> own_member kvs key
      | JArr xs \<Rightarrow>
          (if key = ''length'' then Some (JNum (int (length xs)))
           else case array_index key of
                  Some i \<Rightarrow> if i < length xs then Some (xs ! i) else None
                | None \<Rightarrow> None)
      | JStr s \<Rightarrow>
          (if key = ''length'' then Some (JNum (int (length s)))
           else case array_index key of
                  Some i \<Rightarrow> if i < length s then Some (JStr [s ! i]) else None
                | None \<Rightarrow> None)
      | _ \<Rightarrow> None)"

definition Get :: "'st platform \<Rightarrow> jsval \<Rightarrow> jsval \<Rightarrow> error + jsval" where
  "Get P obj k =
     (case obj of
        JUndefined \<Rightarrow> Inl TypeError
      | JNull \<Rightarrow> Inl TypeError
      | _ \<Rightarrow>
          Inr (case own_property obj (property_key P k) of
                 Some v \<Rightarrow> v
               | None \<Rightarrow> GetInherited P obj (property_key P k)))"

text \<open>
  The write \<^verbatim>\<open>msg.name = v\<close> in strict code (a class body is strict): it throws on
  \<^verbatim>\<open>undefined\<close>, \<^verbatim>\<open>null\<close> and primitives. A named property added to an array, a Blob
  or an error object is not part of the value as modelled.
\<close>

definition set_field :: "jsval \<Rightarrow> string \<Rightarrow> jsval \<Rightarrow> error + jsval" where
  "set_field obj name v =
     (case obj of
        JObj kvs \<Rightarrow>
          Inr (JObj (if name \<in> fst ` set kvs
                     then map (\<lambda>(k, x). if k = name then (k, v) else (k, x)) kvs
                     else kvs @ [(name, v)]))
      | JArr xs \<Rightarrow> Inr obj
      | JBlob bs ty \<Rightarrow> Inr obj
      | JError e \<Rightarrow> Inr obj
      | _ \<Rightarrow> Inl TypeError)"

subsection \<open>State\<close>

text \<open>
  A handler is a function object. \<open>Placeholder\<close> is the \<^verbatim>\<open>function() {}\<close> that
  \<^verbatim>\<open>_setMessageHandler\<close> seeds a new list with, \<open>Builtin key\<close> is
  \<^verbatim>\<open>defaultMessageHandlers[key]\<close>, and \<open>User n\<close> is the \<open>n\<close>-th callable of the caller,
  whose behaviour is the entry \<open>Call\<close> of the platform. The completion callbacks of a
  pending request are the \<^verbatim>\<open>resolve\<close> and \<^verbatim>\<open>reject\<close> of a promise, named by the
  promise's number.
\<close>

datatype handler = Placeholder | Builtin string | User nat

datatype callback = Resolve nat | Reject nat

datatype ready = CONNECTING | OPEN | CLOSING | CLOSED

record socket =
  url :: jsval
  readyState :: ready

text \<open>
  The trace of a client, in order: a call of \<^verbatim>\<open>_callMessageHandler\<close> (a dispatch under
  a key), the call of a handler, the call of a completion callback, a message handed to
  the transport, a transport created, and \<^verbatim>\<open>close()\<close> called on a transport.
\<close>

datatype effect =
    Dispatched string jsval
  | Invoked string handler jsval
  | Settled callback jsval
  | Sent jsval
  | Socket_created jsval
  | Socket_closed jsval

text \<open>
  The two registries are plain objects (\<^verbatim>\<open>{}\<close>) used as dictionaries. A plain object
  inherits from \<^verbatim>\<open>Object.prototype\<close>, so a read finds an own property or, failing
  that, a property of the prototype chain.

  Every key under which the class reads or writes \<^verbatim>\<open>messageHandlers\<close> is a class prefix
  that ends in a colon, followed by a name (\<^verbatim>\<open>connection:open\<close>, \<^verbatim>\<open>request:\<close> and
  a request name, and so on). No property of \<^verbatim>\<open>Object.prototype\<close> has a colon in its
  name, so these reads find own properties only, and the registry of handlers is the map
  of its own properties.

  The keys of \<^verbatim>\<open>openClientRequests\<close> are request names, which the caller and the server
  choose, and the chain matters. The object is modelled with its own properties, each an
  entry \<^verbatim>\<open>{resolve, reject}\<close>, and its prototype: \<^verbatim>\<open>Object.prototype\<close> (\<open>None\<close>) or
  an entry that an assignment under \<^verbatim>\<open>__proto__\<close> has put in its place, whose own
  prototype is \<^verbatim>\<open>Object.prototype\<close>. The properties of \<^verbatim>\<open>Object.prototype\<close> are the
  ones ECMAScript defines (Annex B included, as in every browser): eleven methods and the
  accessor \<^verbatim>\<open>__proto__\<close>, whose getter returns the prototype of the object read and
  whose setter replaces it.
\<close>

definition Object_prototype :: "string list" where
  "Object_prototype =
     [''constructor'', ''__defineGetter__'', ''__defineSetter__'', ''hasOwnProperty'',
      ''__lookupGetter__'', ''__lookupSetter__'', ''isPrototypeOf'', ''propertyIsEnumerable'',
      ''toString'', ''valueOf'', ''__proto__'', ''toLocaleString'']"

record requests =
  own_entries :: "string \<rightharpoonup> callback \<times> callback"
  prototype_entry :: "(callback \<times> callback) option"

definition no_requests :: requests where
  "no_requests = \<lparr>own_entries = Map.empty, prototype_entry = None\<rparr>"

text \<open>
  What a read \<^verbatim>\<open>openClientRequests[key]\<close> finds: an entry, a function (a method of
  \<^verbatim>\<open>Object.prototype\<close>, or the \<^verbatim>\<open>resolve\<close> or \<^verbatim>\<open>reject\<close> of the entry that stands
  as prototype), or the object \<^verbatim>\<open>Object.prototype\<close> itself; \<open>None\<close> is
  \<^verbatim>\<open>undefined\<close>. Everything found is an object and therefore truthy.
\<close>

datatype property = Entry callback callback | Function | Prototype

definition Get_request :: "requests \<Rightarrow> string \<Rightarrow> property option" where
  "Get_request reqs key =
     (case own_entries reqs key of
        Some (resolve, reject) \<Rightarrow> Some (Entry resolve reject)
      | None \<Rightarrow>
          if key = ''__proto__'' then
            Some (case prototype_entry reqs of
                    Some (resolve, reject) \<Rightarrow> Entry resolve reject
                  | None \<Rightarrow> Prototype)
          else if prototype_entry reqs \<noteq> None \<and> (key = ''resolve'' \<or> key = ''reject'')
          then Some Function
          else if key \<in> set Object_prototype then Some Function
          else None)"

text \<open>
  The assignment \<^verbatim>\<open>openClientRequests[key] = {resolve, reject}\<close>: an own property is
  overwritten; otherwise the key \<^verbatim>\<open>__proto__\<close> reaches the setter of the accessor, which
  makes the entry the prototype and creates no own property; every other key creates an
  own property (the inherited methods are writable data properties, which an assignment
  shadows). \<^verbatim>\<open>delete openClientRequests[key]\<close> removes an own property and does nothing
  else.
\<close>

definition Set_request :: "requests \<Rightarrow> string \<Rightarrow> callback \<times> callback \<Rightarrow> requests" where
  "Set_request reqs key entry =
     (if key = ''__proto__'' \<and> own_entries reqs key = None
      then reqs\<lparr>prototype_entry := Some entry\<rparr>
      else reqs\<lparr>own_entries := (own_entries reqs)(key \<mapsto> entry)\<rparr>)"

definition Delete_request :: "requests \<Rightarrow> string \<Rightarrow> requests" where
  "Delete_request reqs key = reqs\<lparr>own_entries := (own_entries reqs)(key := None)\<rparr>"

text \<open>
  The fields of a \<^verbatim>\<open>B3d4api\<close> instance. \<open>effects\<close>, \<open>timers\<close> and
  \<open>promises\<close> belong to the environment: the trace so far, the timeouts scheduled with
  \<^verbatim>\<open>setTimeout\<close> (delay and captured request name), and the number of promises created.
\<close>

record client =
  host :: jsval
  ws :: "socket option"
  sessionId :: jsval
  stationList :: jsval
  currentStation :: jsval
  isPreviewing :: bool
  messageHandlers :: "string \<rightharpoonup> handler list"
  openClientRequests :: requests
  effects :: "effect list"
  timers :: "(jsval \<times> string) list"
  promises :: nat

type_synonym completion = "client \<times> error option"

definition emit :: "effect \<Rightarrow> client \<Rightarrow> client" where
  "emit e st = st\<lparr>effects := effects st @ [e]\<rparr>"

text \<open>A promise is settled by the first call of its \<^verbatim>\<open>resolve\<close> or \<^verbatim>\<open>reject\<close>.\<close>

datatype promise_state = Pending | Fulfilled jsval | Rejected jsval

fun state_of_promise :: "effect list \<Rightarrow> nat \<Rightarrow> promise_state" where
  "state_of_promise [] p = Pending"
| "state_of_promise (Settled (Resolve q) v # es) p =
     (if q = p then Fulfilled v else state_of_promise es p)"
| "state_of_promise (Settled (Reject q) v # es) p =
     (if q = p then Rejected v else state_of_promise es p)"
| "state_of_promise (e # es) p = state_of_promise es p"

text \<open>\<^verbatim>\<open>Promise.reject(v)\<close>: a new promise, rejected at once.\<close>

definition Promise_reject :: "jsval \<Rightarrow> client \<Rightarrow> client \<times> nat" where
  "Promise_reject v st =
     (emit (Settled (Reject (promises st)) v) (st\<lparr>promises := promises st + 1\<rparr>), promises st)"

subsection \<open>The request correlator\<close>

text \<open>
  \<^verbatim>\<open>_registerClientRequest\<close> and \<^verbatim>\<open>_resolveClientRequest\<close>. The request id is the
  property key the caller's value converts to. The resolution reads the entry and returns
  when the read finds nothing. Otherwise it destructures \<^verbatim>\<open>resolve\<close> and \<^verbatim>\<open>reject\<close>
  from what the read found, deletes the own property and calls one of the two. What is
  found but is not an entry (a function, \<^verbatim>\<open>Object.prototype\<close>) has neither property, and
  the call of \<^verbatim>\<open>undefined\<close> throws a TypeError, after the \<^verbatim>\<open>delete\<close>.
\<close>

definition registerClientRequest :: "string \<Rightarrow> callback \<Rightarrow> callback \<Rightarrow> client \<Rightarrow> client" where
  "registerClientRequest request_id resolve reject st =
     st\<lparr>openClientRequests := Set_request (openClientRequests st) request_id (resolve, reject)\<rparr>"

definition resolveClientRequest :: "string \<Rightarrow> bool \<Rightarrow> jsval \<Rightarrow> client \<Rightarrow> completion" where
  "resolveClientRequest request_id success msg st =
     (case Get_request (openClientRequests st) request_id of
        None \<Rightarrow> (st, None)
      | Some entry \<Rightarrow>
          (let st' = st\<lparr>openClientRequests := Delete_request (openClientRequests st) request_id\<rparr>
           in case entry of
                Entry resolve reject \<Rightarrow>
                  (emit (Settled (if success then resolve else reject) msg) st', None)
              | _ \<Rightarrow> (st', Some TypeError)))"

subsection \<open>The built-in handlers\<close>

text \<open>
  \<^verbatim>\<open>defaultMessageHandlers\<close>: the keys in the order of the object literal, and the
  bodies. Each body runs with \<^verbatim>\<open>this\<close> bound to the client. A read of a field of
  \<^verbatim>\<open>undefined\<close> or \<^verbatim>\<open>null\<close> throws, and so does the destructuring in
  \<^verbatim>\<open>connection:close\<close>.
\<close>

definition defaultMessageHandlers :: "string list" where
  "defaultMessageHandlers =
     [''connection:open'', ''connection:close'', ''response:connect'',
      ''response:station_list'', ''response:station_select'',
      ''response:preview_start'', ''response:preview_stop'']"

definition field :: "jsval \<Rightarrow> string \<Rightarrow> jsval" where
  "field v name = (case get_field v name of Inr x \<Rightarrow> x | Inl e \<Rightarrow> JUndefined)"

definition when_status_OK :: "jsval \<Rightarrow> client \<Rightarrow> completion \<Rightarrow> completion" where
  "when_status_OK msg st body =
     (case get_field msg ''status'' of
        Inl e \<Rightarrow> (st, Some e)
      | Inr s \<Rightarrow> if s = JStr ''OK'' then body else (st, None))"

definition default_handler :: "client platform \<Rightarrow> string \<Rightarrow> jsval \<Rightarrow> client \<Rightarrow> completion" where
  "default_handler P key msg st =
     (if key = ''connection:open'' then (st, None)
      else if key = ''connection:close'' then
        (case get_field msg ''code'' of
           Inl e \<Rightarrow> (st, Some e)
         | Inr code \<Rightarrow>
             resolveClientRequest ''connect'' False
               (JObj [(''status'', JStr ''ERROR''),
                      (''message'', JStr ''rejected by websocket onclose()''),
                      (''event'', JObj [(''code'', code),
                                        (''reason'', field msg ''reason''),
                                        (''wasClean'', field msg ''wasClean'')])])
               st)
      else if key = ''response:connect'' then
        when_status_OK msg st (st\<lparr>sessionId := field msg ''session_id''\<rparr>, None)
      else if key = ''response:station_list'' then
        when_status_OK msg st (st\<lparr>stationList := field msg ''stations''\<rparr>, None)
      else if key = ''response:station_select'' then
        when_status_OK msg st
          (case Get P (stationList st) (field msg ''station_id'') of
             Inl e \<Rightarrow> (st, Some e)
           | Inr station \<Rightarrow> (st\<lparr>currentStation := station\<rparr>, None))
      else if key = ''response:preview_start'' then
        when_status_OK msg st (st\<lparr>isPreviewing := True\<rparr>, None)
      else if key = ''response:preview_stop'' then
        when_status_OK msg st (st\<lparr>isPreviewing := False\<rparr>, None)
      else (st, None))"

subsection \<open>The message dispatcher\<close>

text \<open>
  \<^verbatim>\<open>_setMessageHandler(key, handler)\<close>. A missing entry is seeded with the placeholder.
  A \<^verbatim>\<open>null\<close> handler (\<open>None\<close>) replaces the list by \<^verbatim>\<open>slice(1)\<close> of it; any other handler
  is pushed.
\<close>

definition setMessageHandler :: "string \<Rightarrow> handler option \<Rightarrow> client \<Rightarrow> client" where
  "setMessageHandler key handler st =
     (let hs = (case messageHandlers st key of None \<Rightarrow> [Placeholder] | Some l \<Rightarrow> l)
      in case handler of
           None \<Rightarrow> st\<lparr>messageHandlers := (messageHandlers st)(key \<mapsto> js_slice hs 1 (int (length hs)))\<rparr>
         | Some h \<Rightarrow> st\<lparr>messageHandlers := (messageHandlers st)(key \<mapsto> hs @ [h])\<rparr>)"

definition setDefaultMessageHandlers :: "client \<Rightarrow> client" where
  "setDefaultMessageHandlers st =
     fold (\<lambda>key. setMessageHandler key (Some (Builtin key))) defaultMessageHandlers st"

text \<open>The constructor.\<close>

definition new_client :: "jsval \<Rightarrow> client" where
  "new_client h =
     setDefaultMessageHandlers
       \<lparr>host = h, ws = None, sessionId = JNull, stationList = JNull, currentStation = JNull,
        isPreviewing = False, messageHandlers = Map.empty, openClientRequests = no_requests,
        effects = [], timers = [], promises = 0\<rparr>"

text \<open>
  \<^verbatim>\<open>_callMessageHandler(key, msg)\<close>: \<^verbatim>\<open>forEach\<close> calls every handler of the list, in
  order, with the client as \<^verbatim>\<open>this\<close>. There is no \<^verbatim>\<open>try\<close> around the call: a handler
  that throws ends the loop and the exception leaves \<^verbatim>\<open>_callMessageHandler\<close>; what was
  done before stays done. The placeholder does nothing, a built-in handler runs its body,
  and a callable of the caller does what the platform's \<open>Call\<close> says.

  \<^verbatim>\<open>forEach\<close> runs over the list that is registered when the dispatch begins. The
  operations of the class either append to a registered list (\<^verbatim>\<open>push\<close>; \<^verbatim>\<open>forEach\<close>
  does not visit an element appended after it began) or put a new list in its place
  (\<^verbatim>\<open>slice\<close>), so a handler that registers or clears handlers through the class does not
  change the list being run over. A callable that reaches into \<^verbatim>\<open>messageHandlers\<close> and
  shortens a list in place while it is run over is outside the model.
\<close>

definition call_handler :: "client platform \<Rightarrow> string \<Rightarrow> handler \<Rightarrow> jsval \<Rightarrow> client \<Rightarrow> completion" where
  "call_handler P key h msg st =
     (case h of
        Placeholder \<Rightarrow> (emit (Invoked key h msg) st, None)
      | Builtin k \<Rightarrow> default_handler P k msg (emit (Invoked key h msg) st)
      | User n \<Rightarrow> Call P n msg (emit (Invoked key h msg) st))"

fun forEach_handler :: "client platform \<Rightarrow> string \<Rightarrow> handler list \<Rightarrow> jsval \<Rightarrow> client \<Rightarrow> completion" where
  "forEach_handler P key [] msg st = (st, None)"
| "forEach_handler P key (h # hs) msg st =
     (case call_handler P key h msg st of
        (st', Some e) \<Rightarrow> (st', Some e)
      | (st', None) \<Rightarrow> forEach_handler P key hs msg st')"

definition callMessageHandler :: "client platform \<Rightarrow> string \<Rightarrow> jsval \<Rightarrow> client \<Rightarrow> completion" where
  "callMessageHandler P key msg st =
     forEach_handler P key (case messageHandlers st key of Some hs \<Rightarrow> hs | None \<Rightarrow> [])
       msg (emit (Dispatched key msg) st)"

text \<open>
  \<^verbatim>\<open>handleServerRequest\<close> and \<^verbatim>\<open>handleServerResponse\<close>: nothing for a name that is not a
  string; otherwise the general key, then the specific key.
\<close>

definition handleServerRequest :: "client platform \<Rightarrow> jsval \<Rightarrow> jsval \<Rightarrow> client \<Rightarrow> completion" where
  "handleServerRequest P request msg st =
     (case request of
        JStr name \<Rightarrow>
          (case callMessageHandler P ''request:'' msg st of
             (st', Some e) \<Rightarrow> (st', Some e)
           | (st', None) \<Rightarrow> callMessageHandler P (''request:'' @ name) msg st')
      | _ \<Rightarrow> (st, None))"

definition handleServerResponse :: "client platform \<Rightarrow> jsval \<Rightarrow> jsval \<Rightarrow> client \<Rightarrow> completion" where
  "handleServerResponse P response msg st =
     (case response of
        JStr name \<Rightarrow>
          (case callMessageHandler P ''response:'' msg st of
             (st', Some e) \<Rightarrow> (st', Some e)
           | (st', None) \<Rightarrow> callMessageHandler P (''response:'' @ name) msg st')
      | _ \<Rightarrow> (st, None))"

text \<open>
  The public setters return at once unless the name is a string and the handler a
  function; \<open>None\<close> stands for an argument that is not a function.
\<close>

definition onServerRequest :: "jsval \<Rightarrow> handler option \<Rightarrow> client \<Rightarrow> client" where
  "onServerRequest request handler st =
     (case (request, handler) of
        (JStr name, Some h) \<Rightarrow> setMessageHandler (''request:'' @ name) (Some h) st
      | _ \<Rightarrow> st)"

definition onServerResponse :: "jsval \<Rightarrow> handler option \<Rightarrow> client \<Rightarrow> client" where
  "onServerResponse response handler st =
     (case (response, handler) of
        (JStr name, Some h) \<Rightarrow> setMessageHandler (''response:'' @ name) (Some h) st
      | _ \<Rightarrow> st)"

definition onConnectionOpen :: "handler option \<Rightarrow> client \<Rightarrow> client" where
  "onConnectionOpen handler st =
     (case handler of Some h \<Rightarrow> setMessageHandler ''connection:open'' (Some h) st | None \<Rightarrow> st)"

definition onConnectionClose :: "handler option \<Rightarrow> client \<Rightarrow> client" where
  "onConnectionClose handler st =
     (case handler of Some h \<Rightarrow> setMessageHandler ''connection:close'' (Some h) st | None \<Rightarrow> st)"

subsection \<open>Sending\<close>

text \<open>
  \<^verbatim>\<open>sendMessage\<close>: nothing without a session id; otherwise the session id is written
  into the message and the message is handed to the transport. \<^verbatim>\<open>this.ws.send\<close> throws
  a TypeError when there is no transport and an InvalidStateError while the transport is
  still connecting. What is sent is recorded as the value given to \<^verbatim>\<open>JSON.stringify\<close>.
\<close>

definition sendMessage :: "client platform \<Rightarrow> jsval \<Rightarrow> client \<Rightarrow> completion" where
  "sendMessage P msg st =
     (if \<not> truthy P (sessionId st) then (st, None)
      else case set_field msg ''session_id'' (sessionId st) of
             Inl e \<Rightarrow> (st, Some e)
           | Inr msg' \<Rightarrow>
               (case ws st of
                  None \<Rightarrow> (st, Some TypeError)
                | Some s \<Rightarrow>
                    if readyState s = CONNECTING then (st, Some InvalidStateError)
                    else (emit (Sent msg') st, None)))"

text \<open>
  \<^verbatim>\<open>sendRequest(msg, timeout)\<close>. Without a session id, a message or a request name the
  result is a promise rejected at once. Otherwise the executor of a new promise registers
  the request, sends the message and, when the timeout is a number and truthy, schedules
  the timeout. An exception in the executor rejects the promise with the error and skips
  the rest of the executor.
\<close>

definition is_number :: "jsval \<Rightarrow> bool" where
  "is_number v = (case v of JNum n \<Rightarrow> True | JFloat s \<Rightarrow> True | _ \<Rightarrow> False)"

definition sendRequest :: "client platform \<Rightarrow> jsval \<Rightarrow> jsval \<Rightarrow> client \<Rightarrow> client \<times> nat" where
  "sendRequest P msg timeout st =
     (if \<not> truthy P (sessionId st) \<or> \<not> truthy P msg \<or> \<not> truthy P (field msg ''request'') then
        Promise_reject
          (JObj [(''status'', JStr ''ERROR''),
                 (''message'', JStr ''invalid session or invalid request'')]) st
      else
        (let request = property_key P (field msg ''request'');
             p = promises st;
             st1 = registerClientRequest request (Resolve p) (Reject p)
                     (st\<lparr>promises := p + 1\<rparr>)
         in case sendMessage P msg st1 of
              (st2, Some e) \<Rightarrow> (emit (Settled (Reject p) (JError e)) st2, p)
            | (st2, None) \<Rightarrow>
                (if is_number timeout \<and> truthy P timeout
                 then st2\<lparr>timers := timers st2 @ [(timeout, request)]\<rparr>
                 else st2, p)))"

text \<open>
  The callback of a timeout, run when the timer at position \<open>i\<close> fires: it resolves the
  request name it captured as failed, with the session id of that moment. An exception
  leaves the callback.
\<close>

definition timeout_fires :: "nat \<Rightarrow> client \<Rightarrow> completion" where
  "timeout_fires i st =
     (if i < length (timers st) then
        resolveClientRequest (snd (timers st ! i)) False
          (JObj [(''session_id'', sessionId st), (''message'', JStr ''timed out'')])
          (st\<lparr>timers := take i (timers st) @ drop (Suc i) (timers st)\<rparr>)
      else (st, None))"

subsection \<open>The connection manager\<close>

text \<open>
  \<^verbatim>\<open>connect(host)\<close>: a string argument replaces the host; a pending \<^verbatim>\<open>connect\<close>
  request is rejected; a new transport is created, which throws when the platform refuses
  the URL; the result is a new promise registered under \<^verbatim>\<open>connect\<close>.
\<close>

definition connect :: "client platform \<Rightarrow> jsval \<Rightarrow> client \<Rightarrow> client \<times> (error + nat)" where
  "connect P host_arg st =
     (let st1 = (case host_arg of JStr h \<Rightarrow> st\<lparr>host := host_arg\<rparr> | _ \<Rightarrow> st)
      in case resolveClientRequest ''connect'' False
                (JObj [(''status'', JStr ''ERROR''),
                       (''message'', JStr ''reset by new connect request'')]) st1 of
           (st2, Some e) \<Rightarrow> (st2, Inl e)
         | (st2, None) \<Rightarrow>
             if \<not> WebSocket_accepts P (host st2) then (st2, Inl SyntaxError)
             else
               (let st3 = emit (Socket_created (host st2))
                            (st2\<lparr>ws := Some \<lparr>url = host st2, readyState = CONNECTING\<rparr>\<rparr>);
                    p = promises st3
                in (registerClientRequest ''connect'' (Resolve p) (Reject p)
                      (st3\<lparr>promises := p + 1\<rparr>), Inr p)))"

text \<open>
  \<^verbatim>\<open>reconnect()\<close>: a rejected promise when the host is falsy; otherwise the transport,
  if there is one, is closed, the session fields and the pending requests are cleared, and
  \<^verbatim>\<open>connect()\<close> is called without an argument.
\<close>

definition ws_close :: "client \<Rightarrow> client" where
  "ws_close st =
     (case ws st of
        None \<Rightarrow> st
      | Some s \<Rightarrow>
          emit (Socket_closed (url s))
            (st\<lparr>ws := Some (s\<lparr>readyState := (if readyState s = CLOSED then CLOSED else CLOSING)\<rparr>)\<rparr>))"

definition clear_status :: "client \<Rightarrow> client" where
  "clear_status st =
     st\<lparr>sessionId := JNull, stationList := JNull, currentStation := JNull,
        isPreviewing := False, openClientRequests := no_requests\<rparr>"

definition reconnect :: "client platform \<Rightarrow> client \<Rightarrow> client \<times> (error + nat)" where
  "reconnect P st =
     (if \<not> truthy P (host st) then
        (case Promise_reject
                (JObj [(''status'', JStr ''ERROR''), (''message'', JStr ''invalid host'')]) st of
           (st', p) \<Rightarrow> (st', Inr p))
      else connect P JUndefined (clear_status (ws_close st)))"

text \<open>
  The transport's events. \<^verbatim>\<open>onopen\<close> and \<^verbatim>\<open>onclose\<close> dispatch the event under
  \<^verbatim>\<open>connection:open\<close> and \<^verbatim>\<open>connection:close\<close>. \<^verbatim>\<open>onmessage\<close> takes a frame (an
  object) or a text. A frame is decoded asynchronously; the continuation reads
  \<^verbatim>\<open>request\<close> and \<^verbatim>\<open>camera\<close> from the event and dispatches a \<^verbatim>\<open>camera_snap\<close> or a
  \<^verbatim>\<open>camera_frame\<close> request that carries the payload as a Blob. An exception of the
  decoder or of the continuation rejects a promise nobody reads. A text is parsed, and an
  exception there leaves the event handler.
\<close>

datatype message_data = Text string | Binary "byte list"

definition uint8ToBlog :: "byte list \<Rightarrow> jsval" where
  "uint8ToBlog uint8 = JBlob uint8 ''image/jpeg''"

definition on_gltf :: "client platform \<Rightarrow> gltf \<Rightarrow> client \<Rightarrow> completion" where
  "on_gltf P g st =
     (case event g of
        None \<Rightarrow> (st, Some TypeError)
      | Some ev \<Rightarrow>
          (case get_field ev ''request'' of
             Inl e \<Rightarrow> (st, Some e)
           | Inr request \<Rightarrow>
               (let payload =
                      JObj [(''camera'', field ev ''camera''),
                            (''frame'', uint8ToBlog (case data g of Some d \<Rightarrow> d | None \<Rightarrow> []))]
                in if request = JStr ''buffer_capture''
                   then handleServerRequest P (JStr ''camera_snap'') payload st
                   else handleServerRequest P (JStr ''camera_frame'') payload st)))"

definition ws_onmessage :: "client platform \<Rightarrow> message_data \<Rightarrow> client \<Rightarrow> completion" where
  "ws_onmessage P d st =
     (case d of
        Binary frame \<Rightarrow>
          (case parseFrame P frame of
             Inl e \<Rightarrow> (st, None)
           | Inr g \<Rightarrow> (fst (on_gltf P g st), None))
      | Text text \<Rightarrow>
          (case JSON_parse P text of
             None \<Rightarrow> (st, Some SyntaxError)
           | Some msg \<Rightarrow>
               (case get_field msg ''response_to'' of
                  Inl e \<Rightarrow> (st, Some e)
                | Inr response_to \<Rightarrow>
                    if truthy P response_to then
                      (case resolveClientRequest (property_key P response_to) True msg st of
                         (st', Some e) \<Rightarrow> (st', Some e)
                       | (st', None) \<Rightarrow> handleServerResponse P response_to msg st')
                    else if truthy P (field msg ''request'') then
                      handleServerRequest P (field msg ''request'') msg st
                    else (st, None))))"

definition ws_onopen :: "client platform \<Rightarrow> jsval \<Rightarrow> client \<Rightarrow> completion" where
  "ws_onopen P ev st = callMessageHandler P ''connection:open'' ev st"

definition ws_onclose :: "client platform \<Rightarrow> jsval \<Rightarrow> client \<Rightarrow> completion" where
  "ws_onclose P ev st = callMessageHandler P ''connection:close'' ev st"

text \<open>
  The transport changes its own \<^verbatim>\<open>readyState\<close> before it fires an event. These two steps
  are the events of the current transport; a transport that \<^verbatim>\<open>connect\<close> has replaced is no
  longer part of the state.
\<close>

definition transport_opens :: "client platform \<Rightarrow> jsval \<Rightarrow> client \<Rightarrow> completion" where
  "transport_opens P ev st =
     ws_onopen P ev (st\<lparr>ws := map_option (\<lambda>s. s\<lparr>readyState := OPEN\<rparr>) (ws st)\<rparr>)"

definition transport_closes :: "client platform \<Rightarrow> jsval \<Rightarrow> client \<Rightarrow> completion" where
  "transport_closes P ev st =
     ws_onclose P ev (st\<lparr>ws := map_option (\<lambda>s. s\<lparr>readyState := CLOSED\<rparr>) (ws st)\<rparr>)"


section \<open>A reference platform\<close>

text \<open>
  Decimal numerals, for the property key of an integer and for array indices.
\<close>

function decimal :: "nat \<Rightarrow> string" where
  "decimal n = (if n < 10 then [digit_char n] else decimal (n div 10) @ [digit_char (n mod 10)])"
  by pat_completeness auto
termination
  by (relation "measure id") auto

declare decimal.simps [simp del]

text \<open>
  The other entries of the reference platform: a number literal with a fraction or an
  exponent is falsy when its mantissa has no digit but 0 (underflow to 0 is not modelled);
  the property key of a primitive is its \<^verbatim>\<open>ToString\<close>, that of a plain object
  \<^verbatim>\<open>[object Object]\<close>; no property is inherited; a sum that is not a sum of numbers is
  read as NaN; a WebSocket accepts the URLs that start with \<^verbatim>\<open>ws://\<close> or \<^verbatim>\<open>wss://\<close>;
  every callable of the caller returns at once and leaves the client as it is.
\<close>

definition float_truthy :: "string \<Rightarrow> bool" where
  "float_truthy s =
     list_ex (\<lambda>c. is_digit c \<and> c \<noteq> CHR ''0'')
       (takeWhile (\<lambda>c. c \<noteq> CHR ''e'' \<and> c \<noteq> CHR ''E'') s)"

definition key_of_value :: "jsval \<Rightarrow> string" where
  "key_of_value v =
     (case v of
        JUndefined \<Rightarrow> ''undefined''
      | JNull \<Rightarrow> ''null''
      | JBool b \<Rightarrow> (if b then ''true'' else ''false'')
      | JNum n \<Rightarrow> (if n < 0 then ''-'' @ decimal (nat (- n)) else decimal (nat n))
      | JFloat s \<Rightarrow> s
      | JStr s \<Rightarrow> s
      | JArr xs \<Rightarrow> []
      | JObj kvs \<Rightarrow> ''[object Object]''
      | JBlob bs ty \<Rightarrow> ''[object Blob]''
      | JError e \<Rightarrow> ''Error'')"

definition ws_url :: "jsval \<Rightarrow> bool" where
  "ws_url v = (case v of JStr s \<Rightarrow> take 5 s = ''ws://'' \<or> take 6 s = ''wss://'' | _ \<Rightarrow> False)"

definition reference_platform :: "client platform" where
  "reference_platform =
     \<lparr>JSON_parse = json_decode,
      ToBoolean_float = float_truthy,
      ToPropertyKey = key_of_value,
      GetInherited = (\<lambda>obj key. JUndefined),
      ToIntegerOfSum = (\<lambda>pos v. 0),
      WebSocket_accepts = ws_url,
      Call = (\<lambda>n msg st. (st, None))\<rparr>"



text \<open>
  Frames are written as the specification writes them: ASCII text as bytes, and
  \<^verbatim>\<open>int32(n)\<close> as the four bytes of \<open>n\<close>, least significant first.
\<close>

definition ascii :: "string \<Rightarrow> byte list" where
  "ascii s = map (\<lambda>c. of_char c) s"

definition int32 :: "int \<Rightarrow> byte list" where
  "int32 n =
     [word_of_int n, word_of_int (n div 256), word_of_int (n div 65536),
      word_of_int (n div 16777216)]"

section \<open>Vocabulary of the properties\<close>

text \<open>
  The parts of a frame the wire layout names: the \<^verbatim>\<open>msgLength\<close> field at offset 12, the
  text of that many bytes from offset 20 as \<^verbatim>\<open>parseFrame\<close> hands it to \<^verbatim>\<open>JSON.parse\<close>,
  and the offset of the payload, eight bytes (\<^verbatim>\<open>dataLength\<close>, \<^verbatim>\<open>dataType\<close>) after the
  text.
\<close>

definition frame_msgLength :: "byte list \<Rightarrow> int" where
  "frame_msgLength frame = bufferToInt32 (js_slice frame 12 16)"

definition embedded_text :: "byte list \<Rightarrow> string" where
  "embedded_text frame = trim (fromCharCode (js_slice frame 20 (20 + frame_msgLength frame)))"

definition data_offset :: "byte list \<Rightarrow> int" where
  "data_offset frame = 20 + frame_msgLength frame + 8"

text \<open>
  The frame of the specification's scenario, with the bytes of the \<^verbatim>\<open>frameLength\<close> field
  and the value of the \<^verbatim>\<open>msgLength\<close> field left open. The JSON text is 54 bytes long.
\<close>

definition scenario_frame :: "byte list \<Rightarrow> int \<Rightarrow> byte list" where
  \<open>scenario_frame frameLength_bytes n =
     ascii ''gLTF'' @ int32 1 @ frameLength_bytes @ int32 n @ ascii ''evnt'' @
     ascii ''{"request":"buffer_capture","camera":"c","filesize":4}'' @
     int32 0 @ ascii ''jpg'' @ [0x00] @ [0x01, 0x02, 0x03, 0x04]\<close>

text \<open>
  A frame in the wire layout around a given text and payload: version 1, the length of
  the whole frame and of the text in the two length fields, message type \<^verbatim>\<open>evnt\<close>, a
  \<^verbatim>\<open>dataLength\<close> of 0 and the data type \<^verbatim>\<open>jpg\<close>.
\<close>

definition frame_around :: "string \<Rightarrow> byte list \<Rightarrow> byte list" where
  "frame_around text_bytes payload =
     ascii ''gLTF'' @ int32 1 @ int32 (28 + int (length text_bytes) + int (length payload)) @
     int32 (int (length text_bytes)) @ ascii ''evnt'' @ ascii text_bytes @
     int32 0 @ ascii ''jpg'' @ [0x00] @ payload"


definition handlers_of :: "client \<Rightarrow> string \<Rightarrow> handler list" where
  "handlers_of st key = (case messageHandlers st key of Some hs \<Rightarrow> hs | None \<Rightarrow> [])"

text \<open>
  The events of the dispatcher in a trace: the dispatches and the calls of handlers, in
  order.
\<close>

definition dispatcher_event :: "effect \<Rightarrow> bool" where
  "dispatcher_event e = (case e of Dispatched k m \<Rightarrow> True | Invoked k h m \<Rightarrow> True | _ \<Rightarrow> False)"

definition dispatcher_events :: "effect list \<Rightarrow> effect list" where
  "dispatcher_events es = filter dispatcher_event es"




text \<open>
  The constructor registers each built-in handler under its own key, and the setters add
  callables of the caller only: a built-in handler is found under no other key.
\<close>

definition registry_ok :: "client \<Rightarrow> bool" where
  "registry_ok st =
     (\<forall>key hs k. messageHandlers st key = Some hs \<longrightarrow> Builtin k \<in> set hs \<longrightarrow> k = key)"

definition is_string :: "jsval \<Rightarrow> bool" where
  "is_string v = (case v of JStr s \<Rightarrow> True | _ \<Rightarrow> False)"

text \<open>
  A client with a session, as the transitions of the model produce it: the constructor,
  \<^verbatim>\<open>connect()\<close>, the transport opening, and the server's reply to \<^verbatim>\<open>connect\<close> with a
  session id.
\<close>

definition established :: client where
  \<open>established =
     fst (ws_onmessage reference_platform
            (Text ''{"response_to":"connect","status":"OK","session_id":"s1"}'')
            (fst (transport_opens reference_platform (JObj [])
                    (fst (connect reference_platform JUndefined
                            (new_client (JStr ''ws://b3d4'')))))))\<close>


section \<open>Properties\<close>

subsection \<open>Integers on the wire\<close>






subsection \<open>Slices\<close>

text \<open>
  Between indices that are not negative and in order, \<^verbatim>\<open>slice\<close> is \<open>drop\<close> and
  \<open>take\<close>: what lies beyond the end of the list is cut off.
\<close>

lemma js_slice_from:
  assumes "0 \<le> i" "i \<le> j"
  shows "js_slice xs i j = take (nat (j - i)) (drop (nat i) xs)"
proof (cases "nat i \<le> length xs")
  case False
  then show ?thesis
    using assms by (simp add: js_slice_def relative_index_def)
next
  case True
  have k: "relative_index (length xs) i = nat i"
    using assms True by (simp add: relative_index_def)
  have f: "relative_index (length xs) j = min (nat j) (length xs)"
    using assms by (simp add: relative_index_def)
  have "take (min (nat j) (length xs) - nat i) (drop (nat i) xs) =
        take (nat (j - i)) (drop (nat i) xs)"
  proof (cases "nat j \<le> length xs")
    case True
    moreover have "nat j - nat i = nat (j - i)"
      using assms by linarith
    ultimately show ?thesis
      by simp
  next
    case False
    then have "length (drop (nat i) xs) \<le> nat (j - i)"
      using assms by simp
    then show ?thesis
      using False by simp
  qed
  then show ?thesis
    by (simp add: js_slice_def k f)
qed

lemma js_slice_from_1: "js_slice xs 1 (int (length xs)) = drop 1 xs"
  by (cases xs) (auto simp: js_slice_def relative_index_def)

subsection \<open>The frame decoder\<close>

lemma parseFrame_parsed:
  assumes "JSON_parse P (embedded_text frame) = Some ev"
    and "get_field ev ''filesize'' = Inr bytes"
  shows "parseFrame P frame =
    Inr \<lparr>tag = fromCharCode (js_slice frame 0 4),
         version = bufferToInt32 (js_slice frame 4 8),
         frameLength = bufferToInt32 (js_slice frame 8 12),
         msgLength = frame_msgLength frame,
         msgType = fromCharCode (js_slice frame 16 20),
         event = Some ev,
         state = State_OK,
         dataLength = Some (bufferToInt32 (js_slice frame (data_offset frame - 8) (data_offset frame - 4))),
         dataType = Some (strip_nul (uint8_toString (js_slice frame (data_offset frame - 4) (data_offset frame)))),
         data = Some (js_slice frame (data_offset frame) (end_index P (data_offset frame) bytes))\<rparr>"
  using assms
  by (simp add: parseFrame_def embedded_text_def frame_msgLength_def data_offset_def Let_def
      add.commute add.left_commute)

text \<open>
  The one exception of the decoder: a text that parses to \<^verbatim>\<open>null\<close>. The read of
  \<^verbatim>\<open>filesize\<close> is outside the \<^verbatim>\<open>try\<close>. (\<^verbatim>\<open>JSON.parse\<close> never returns
  \<^verbatim>\<open>undefined\<close>.)
\<close>

lemma parseFrame_null_event:
  assumes "JSON_parse P (embedded_text frame) = Some JNull"
  shows "parseFrame P frame = Inl TypeError"
  using assms
  by (simp add: parseFrame_def embedded_text_def frame_msgLength_def get_field_def Let_def)

lemma parseFrame_returns:
  assumes "JSON_parse P (embedded_text frame) \<noteq> Some JNull"
    and "JSON_parse P (embedded_text frame) \<noteq> Some JUndefined"
  shows "\<exists>g. parseFrame P frame = Inr g"
proof (cases "JSON_parse P (embedded_text frame)")
  case None
  then show ?thesis
    by (simp add: parseFrame_def embedded_text_def frame_msgLength_def Let_def)
next
  case (Some ev)
  then have "ev \<noteq> JNull" "ev \<noteq> JUndefined"
    using assms by simp_all
  then show ?thesis
    using Some
    by (cases ev)
      (simp_all add: parseFrame_def embedded_text_def frame_msgLength_def get_field_def Let_def)
qed

text \<open>
  Claim C7. Whenever the text of \<^verbatim>\<open>msgLength\<close> bytes is not valid JSON, the decoder
  returns (it does not throw) the record with the header fields it has read, tag, version,
  frameLength, msgLength and msgType, and the state \<^verbatim>\<open>{status: 'ERROR_FILE_BAD_JSON', error}\<close>;
  \<^verbatim>\<open>event\<close>, \<^verbatim>\<open>dataLength\<close>, \<^verbatim>\<open>dataType\<close> and \<^verbatim>\<open>data\<close> are not assigned.
\<close>

theorem parseFrame_bad_json:
  assumes "JSON_parse P (embedded_text frame) = None"
  shows "parseFrame P frame =
    Inr \<lparr>tag = fromCharCode (js_slice frame 0 4),
         version = bufferToInt32 (js_slice frame 4 8),
         frameLength = bufferToInt32 (js_slice frame 8 12),
         msgLength = bufferToInt32 (js_slice frame 12 16),
         msgType = fromCharCode (js_slice frame 16 20),
         event = None,
         state = State_Failed ''ERROR_FILE_BAD_JSON'' SyntaxError,
         dataLength = None, dataType = None, data = None\<rparr>"
  using assms by (simp add: parseFrame_def embedded_text_def frame_msgLength_def Let_def)

text \<open>
  An instance: a frame whose text is the nine bytes \<^verbatim>\<open>{filesize\<close>.
\<close>

theorem parseFrame_bad_json_witness:
  "JSON_parse reference_platform
     (embedded_text (ascii ''gLTF'' @ int32 1 @ int32 29 @ int32 9 @ ascii ''evnt'' @ ascii ''{filesize'')) = None
   \<and> parseFrame reference_platform
     (ascii ''gLTF'' @ int32 1 @ int32 29 @ int32 9 @ ascii ''evnt'' @ ascii ''{filesize'') =
     Inr \<lparr>tag = ''gLTF'', version = 1, frameLength = 29, msgLength = 9, msgType = ''evnt'',
          event = None, state = State_Failed ''ERROR_FILE_BAD_JSON'' SyntaxError,
          dataLength = None, dataType = None, data = None\<rparr>"
proof -
  let ?f = "ascii ''gLTF'' @ int32 1 @ int32 29 @ int32 9 @ ascii ''evnt'' @ ascii ''{filesize''"
  have h: "JSON_parse reference_platform (embedded_text ?f) = None"
    by code_simp
  have v: "fromCharCode (js_slice ?f 0 4) = ''gLTF''" "bufferToInt32 (js_slice ?f 4 8) = 1"
    "bufferToInt32 (js_slice ?f 8 12) = 29" "bufferToInt32 (js_slice ?f 12 16) = 9"
    "fromCharCode (js_slice ?f 16 20) = ''evnt''"
    by code_simp+
  show ?thesis
    using parseFrame_bad_json [OF h] h by (simp only: v simp_thms)
qed


text \<open>
  Claim C6, as amended. In a frame whose text parses to an event with a \<^verbatim>\<open>filesize\<close>
  that is an integer and not negative, and whose \<^verbatim>\<open>msgLength\<close> is not negative, the
  payload starts at the position right after \<^verbatim>\<open>dataType\<close> and holds the next
  \<^verbatim>\<open>filesize\<close> bytes of the buffer, or all the bytes that are left when the buffer
  holds fewer. Its length is the smaller of \<^verbatim>\<open>filesize\<close> and the number of bytes left.
  The \<^verbatim>\<open>dataLength\<close> field, the four bytes before \<^verbatim>\<open>dataType\<close>, is read into
  the record and has no part in the payload.
\<close>

theorem parseFrame_data:
  assumes parsed: "JSON_parse P (embedded_text frame) = Some ev"
    and filesize: "get_field ev ''filesize'' = Inr (JNum n)"
    and layout: "0 \<le> frame_msgLength frame" "0 \<le> n"
  shows "\<exists>g d. parseFrame P frame = Inr g \<and> data g = Some d \<and>
           d = take (nat n) (drop (nat (data_offset frame)) frame) \<and>
           length d = min (nat n) (length frame - nat (data_offset frame)) \<and>
           dataLength g = Some (bufferToInt32 (take 4 (drop (nat (data_offset frame - 8)) frame)))"
proof -
  let ?off = "data_offset frame"
  have off: "0 \<le> ?off" "0 \<le> ?off - 8" "?off - 8 \<le> ?off - 4"
    using layout(1) by (simp_all add: data_offset_def)
  have payload: "js_slice frame ?off (?off + n) = take (nat n) (drop (nat ?off) frame)"
    using js_slice_from [of ?off "?off + n" frame] off(1) layout(2) by simp
  have header: "js_slice frame (?off - 8) (?off - 4) = take 4 (drop (nat (?off - 8)) frame)"
    using js_slice_from [OF off(2,3), of frame] by simp
  let ?g = "\<lparr>tag = fromCharCode (js_slice frame 0 4),
         version = bufferToInt32 (js_slice frame 4 8),
         frameLength = bufferToInt32 (js_slice frame 8 12),
         msgLength = frame_msgLength frame,
         msgType = fromCharCode (js_slice frame 16 20),
         event = Some ev,
         state = State_OK,
         dataLength = Some (bufferToInt32 (take 4 (drop (nat (?off - 8)) frame))),
         dataType = Some (strip_nul (uint8_toString (js_slice frame (?off - 4) ?off))),
         data = Some (take (nat n) (drop (nat ?off) frame))\<rparr>"
  have run: "parseFrame P frame = Inr ?g"
    using parseFrame_parsed [OF parsed filesize]
    by (simp only: end_index_def jsval.case payload header)
  show ?thesis
  proof (intro exI conjI)
    show "parseFrame P frame = Inr ?g"
      by (rule run)
    show "data ?g = Some (take (nat n) (drop (nat ?off) frame))"
      by simp
    show "take (nat n) (drop (nat ?off) frame) = take (nat n) (drop (nat ?off) frame)"
      by (rule refl)
    show "length (take (nat n) (drop (nat ?off) frame)) = min (nat n) (length frame - nat ?off)"
      by simp
    show "dataLength ?g = Some (bufferToInt32 (take 4 (drop (nat (?off - 8)) frame)))"
      by simp
  qed
qed

text \<open>
  Two instances: the frame of the scenario, where \<^verbatim>\<open>dataLength\<close> is 0, \<^verbatim>\<open>filesize\<close>
  is 4 and the payload is the four bytes after \<^verbatim>\<open>dataType\<close>; and a frame with five
  bytes after \<^verbatim>\<open>dataType\<close> and a \<^verbatim>\<open>filesize\<close> of 3, whose payload is the first
  three of them.
\<close>

theorem parseFrame_data_witness:
  \<open>(\<exists>g. parseFrame reference_platform (scenario_frame (int32 86) 54) = Inr g \<and>
        data g = Some [1, 2, 3, 4] \<and> dataLength g = Some 0)
   \<and> (\<exists>g d. parseFrame reference_platform
               (frame_around ''{"camera":"c","filesize":3}'' [9, 8, 7, 6, 5]) = Inr g \<and>
             data g = Some d \<and> d = [9, 8, 7] \<and> length d = 3)\<close>
proof -
  let ?f = "scenario_frame (int32 86) 54"
  let ?ev = "JObj [(''request'', JStr ''buffer_capture''), (''camera'', JStr ''c''),
                   (''filesize'', JNum 4)]"
  have parsed: "JSON_parse reference_platform (embedded_text ?f) = Some ?ev"
    by code_simp
  have filesize: "get_field ?ev ''filesize'' = Inr (JNum 4)"
    by code_simp
  have layout: "0 \<le> frame_msgLength ?f" "(0::int) \<le> 4"
    by code_simp+
  have v: "take (nat 4) (drop (nat (data_offset ?f)) ?f) = [1, 2, 3, 4]"
    "bufferToInt32 (take 4 (drop (nat (data_offset ?f - 8)) ?f)) = 0"
    by code_simp+
  have first: "\<exists>g. parseFrame reference_platform ?f = Inr g \<and>
        data g = Some [1, 2, 3, 4] \<and> dataLength g = Some 0"
    using parseFrame_data [OF parsed filesize layout] unfolding v by blast
  let ?h = \<open>frame_around ''{"camera":"c","filesize":3}'' [9, 8, 7, 6, 5]\<close>
  let ?ev' = "JObj [(''camera'', JStr ''c''), (''filesize'', JNum 3)]"
  have parsed': "JSON_parse reference_platform (embedded_text ?h) = Some ?ev'"
    by code_simp
  have filesize': "get_field ?ev' ''filesize'' = Inr (JNum 3)"
    by code_simp
  have layout': "0 \<le> frame_msgLength ?h" "(0::int) \<le> 3"
    by code_simp+
  have v': "take (nat 3) (drop (nat (data_offset ?h)) ?h) = [9, 8, 7]"
    "min (nat 3) (length ?h - nat (data_offset ?h)) = 3"
    by code_simp+
  have second: "\<exists>g d. parseFrame reference_platform ?h = Inr g \<and>
             data g = Some d \<and> d = [9, 8, 7] \<and> length d = 3"
    using parseFrame_data [OF parsed' filesize' layout'] unfolding v' by blast
  show ?thesis
    using first second by (rule conjI)
qed

text \<open>
  The claim as stated fails on a buffer that ends early: with a \<^verbatim>\<open>filesize\<close> of 10
  and four bytes after \<^verbatim>\<open>dataType\<close> the payload has four bytes, since \<^verbatim>\<open>slice\<close>
  stops at the end of the buffer and nothing compares the buffer with the lengths it
  declares. It fails as well for a \<^verbatim>\<open>filesize\<close> that is no count: with -45 and a
  payload position of 44 the end index is -1, which \<^verbatim>\<open>slice\<close> counts from the end of
  the buffer, and the payload has three bytes.
\<close>

theorem parseFrame_data_counterexample:
  \<open>parseFrame reference_platform
      (frame_around ''{"request":"buffer_capture","camera":"c","filesize":10}'' [1, 2, 3, 4]) =
     Inr \<lparr>tag = ''gLTF'', version = 1, frameLength = 87, msgLength = 55, msgType = ''evnt'',
          event = Some (JObj [(''request'', JStr ''buffer_capture''), (''camera'', JStr ''c''),
                              (''filesize'', JNum 10)]),
          state = State_OK, dataLength = Some 0, dataType = Some ''106,112,103,0'',
          data = Some [1, 2, 3, 4]\<rparr>
   \<and> parseFrame reference_platform (frame_around ''{"filesize":-45}'' [1, 2, 3, 4]) =
     Inr \<lparr>tag = ''gLTF'', version = 1, frameLength = 48, msgLength = 16, msgType = ''evnt'',
          event = Some (JObj [(''filesize'', JNum (- 45))]),
          state = State_OK, dataLength = Some 0, dataType = Some ''106,112,103,0'',
          data = Some [1, 2, 3]\<rparr>\<close>
  by code_simp

text \<open>
  An event without \<^verbatim>\<open>filesize\<close>: the end index is NaN, read as 0, and the payload is
  empty.
\<close>

lemma parseFrame_data_no_filesize:
  \<open>parseFrame reference_platform (frame_around ''{"camera":"c"}'' [1, 2, 3, 4]) =
     Inr \<lparr>tag = ''gLTF'', version = 1, frameLength = 46, msgLength = 14, msgType = ''evnt'',
          event = Some (JObj [(''camera'', JStr ''c'')]),
          state = State_OK, dataLength = Some 0, dataType = Some ''106,112,103,0'',
          data = Some []\<rparr>\<close>
  by code_simp

subsection \<open>The trace of the dispatcher\<close>




lemma dispatcher_events_append:
  "dispatcher_events (xs @ ys) = dispatcher_events xs @ dispatcher_events ys"
  by (simp add: dispatcher_events_def)

lemma dispatcher_events_simps:
  "dispatcher_events [] = []"
  "dispatcher_events (Dispatched k m # es) = Dispatched k m # dispatcher_events es"
  "dispatcher_events (Invoked k h m # es) = Invoked k h m # dispatcher_events es"
  "dispatcher_events (Settled c v # es) = dispatcher_events es"
  "dispatcher_events (Sent v # es) = dispatcher_events es"
  "dispatcher_events (Socket_created v # es) = dispatcher_events es"
  "dispatcher_events (Socket_closed v # es) = dispatcher_events es"
  by (simp_all add: dispatcher_events_def dispatcher_event_def)


lemma resolveClientRequest_frame:
  "messageHandlers (fst (resolveClientRequest r s v st)) = messageHandlers st"
  "dispatcher_events (effects (fst (resolveClientRequest r s v st))) = dispatcher_events (effects st)"
  "stationList (fst (resolveClientRequest r s v st)) = stationList st"
  "currentStation (fst (resolveClientRequest r s v st)) = currentStation st"
  by (simp_all add: resolveClientRequest_def emit_def dispatcher_events_append
      dispatcher_events_simps Let_def split: option.splits property.splits)















subsection \<open>The registry invariant\<close>

lemma registry_ok_cong:
  "messageHandlers st' = messageHandlers st \<Longrightarrow> registry_ok st' = registry_ok st"
  by (simp add: registry_ok_def)

lemma registry_ok_setMessageHandler:
  assumes "registry_ok st" and "\<forall>k. h = Some (Builtin k) \<longrightarrow> k = key"
  shows "registry_ok (setMessageHandler key h st)"
proof -
  define hs where "hs = (case messageHandlers st key of None \<Rightarrow> [Placeholder] | Some l \<Rightarrow> l)"
  have old: "\<forall>k. Builtin k \<in> set hs \<longrightarrow> k = key"
    using assms(1) by (cases "messageHandlers st key") (auto simp: hs_def registry_ok_def)
  have cut: "set (js_slice hs 1 (int (length hs))) \<subseteq> set hs"
    by (simp add: js_slice_from_1 set_drop_subset)
  show ?thesis
  proof (cases h)
    case None
    then have "messageHandlers (setMessageHandler key h st) =
                 (messageHandlers st)(key \<mapsto> js_slice hs 1 (int (length hs)))"
      by (simp add: setMessageHandler_def hs_def Let_def)
    then show ?thesis
      using assms(1) old cut unfolding registry_ok_def by (auto split: if_splits)
  next
    case (Some x)
    then have "messageHandlers (setMessageHandler key h st) = (messageHandlers st)(key \<mapsto> hs @ [x])"
      by (simp add: setMessageHandler_def hs_def Let_def)
    then show ?thesis
      using assms old Some unfolding registry_ok_def by (auto split: if_splits)
  qed
qed



lemma registry_ok_setters:
  assumes "registry_ok st" and "\<forall>k. h \<noteq> Some (Builtin k)"
  shows "registry_ok (onServerRequest name h st)" "registry_ok (onServerResponse name h st)"
    "registry_ok (onConnectionOpen h st)" "registry_ok (onConnectionClose h st)"
  using assms
  by (auto simp: onServerRequest_def onServerResponse_def onConnectionOpen_def
      onConnectionClose_def registry_ok_setMessageHandler split: jsval.splits option.splits)

lemma handlers_of_new_client:
  "handlers_of (new_client h) ''response:station_select'' =
     [Placeholder, Builtin ''response:station_select'']"
  "handlers_of (new_client h) ''response:station_list'' =
     [Placeholder, Builtin ''response:station_list'']"
  "handlers_of (new_client h) ''request:'' = []"
  "handlers_of (new_client h) ''response:'' = []"
  by (simp_all add: new_client_def setDefaultMessageHandlers_def defaultMessageHandlers_def
      setMessageHandler_def handlers_of_def)

text \<open>
  The operations of the class that call no handler leave the registry alone.
\<close>

lemma registry_unchanged:
  "messageHandlers (registerClientRequest r c1 c2 st) = messageHandlers st"
  "messageHandlers (fst (timeout_fires i st)) = messageHandlers st"
  "messageHandlers (fst (sendMessage P msg st)) = messageHandlers st"
  "messageHandlers (fst (sendRequest P msg t st)) = messageHandlers st"
  "messageHandlers (fst (connect P a st)) = messageHandlers st"
  "messageHandlers (fst (reconnect P st)) = messageHandlers st"
proof -
  show 1: "messageHandlers (registerClientRequest r c1 c2 st) = messageHandlers st"
    by (simp add: registerClientRequest_def)
  show "messageHandlers (fst (timeout_fires i st)) = messageHandlers st"
    by (simp add: timeout_fires_def resolveClientRequest_frame)
  show 3: "\<And>st. messageHandlers (fst (sendMessage P msg st)) = messageHandlers st"
    by (simp add: sendMessage_def emit_def split: sum.splits option.splits)
  show "messageHandlers (fst (sendRequest P msg t st)) = messageHandlers st"
  proof -
    let ?st1 = "registerClientRequest (property_key P (field msg ''request''))
                  (Resolve (promises st)) (Reject (promises st)) (st\<lparr>promises := promises st + 1\<rparr>)"
    obtain st2 r where s: "sendMessage P msg ?st1 = (st2, r)"
      by (cases "sendMessage P msg ?st1")
    have "messageHandlers st2 = messageHandlers st"
      using 3 [of ?st1] s by (simp add: registerClientRequest_def)
    then show ?thesis
      using s by (cases r) (simp_all add: sendRequest_def Let_def Promise_reject_def emit_def)
  qed
  show 5: "\<And>a st. messageHandlers (fst (connect P a st)) = messageHandlers st"
  proof -
    fix a and st :: client
    let ?st1 = "case a of JStr h \<Rightarrow> st\<lparr>host := a\<rparr> | _ \<Rightarrow> st"
    let ?v = "JObj [(''status'', JStr ''ERROR''),
                    (''message'', JStr ''reset by new connect request'')]"
    obtain st2 r where c: "resolveClientRequest ''connect'' False ?v ?st1 = (st2, r)"
      by (cases "resolveClientRequest ''connect'' False ?v ?st1")
    have "messageHandlers st2 = messageHandlers ?st1"
      using resolveClientRequest_frame(1) [of "''connect''" False ?v ?st1] c by simp
    moreover have "messageHandlers ?st1 = messageHandlers st"
      by (cases a) simp_all
    ultimately show "messageHandlers (fst (connect P a st)) = messageHandlers st"
      using c by (cases r) (simp_all add: connect_def Let_def registerClientRequest_def emit_def)
  qed
  show "messageHandlers (fst (reconnect P st)) = messageHandlers st"
    using 5 [of JUndefined "clear_status (ws_close st)"]
    by (simp add: reconnect_def Promise_reject_def emit_def)
      (simp add: clear_status_def ws_close_def emit_def split: option.splits)
qed

subsection \<open>Clearing the handlers of a key\<close>

lemma setMessageHandler_clear:
  "handlers_of (setMessageHandler key None st) key =
     drop 1 (case messageHandlers st key of None \<Rightarrow> [Placeholder] | Some hs \<Rightarrow> hs)"
  by (simp add: setMessageHandler_def handlers_of_def js_slice_from_1 Let_def)

lemma setMessageHandler_push:
  "handlers_of (setMessageHandler key (Some h) st) key =
     (case messageHandlers st key of None \<Rightarrow> [Placeholder] | Some hs \<Rightarrow> hs) @ [h]"
  by (simp add: setMessageHandler_def handlers_of_def Let_def)

text \<open>
  Claim C1 (code bug). The handlers of a key after the constructor are the placeholder and
  the built-in handler. With two handlers of the caller appended, clearing leaves three
  handlers, the built-in one and the caller's two: \<^verbatim>\<open>slice(1)\<close> drops the first element
  and keeps the rest, where the comment in the source promises to keep the first and drop
  the rest. A second clear drops the built-in handler.
\<close>

theorem clear_keeps_user_handlers:
  "handlers_of
     (setMessageHandler ''response:station_list'' None
        (onServerResponse (JStr ''station_list'') (Some (User 2))
           (onServerResponse (JStr ''station_list'') (Some (User 1))
              (new_client (JStr ''ws://b3d4'')))))
     ''response:station_list''
   = [Builtin ''response:station_list'', User 1, User 2]"
  by code_simp

lemma second_clear_drops_builtin:
  "handlers_of
     (setMessageHandler ''response:station_list'' None
        (setMessageHandler ''response:station_list'' None
           (onServerResponse (JStr ''station_list'') (Some (User 2))
              (onServerResponse (JStr ''station_list'') (Some (User 1))
                 (new_client (JStr ''ws://b3d4''))))))
     ''response:station_list''
   = [User 1, User 2]"
  by code_simp

subsection \<open>Dispatch of server requests and responses\<close>




text \<open>
  Claim C10. For a name that is not a string both functions return at once: no handler is
  called and the client, with its session fields, its registry and its pending requests,
  is the one it was.
\<close>

theorem handleServer_non_string:
  assumes "\<not> is_string name"
  shows "handleServerRequest P name msg st = (st, None) \<and>
         handleServerResponse P name msg st = (st, None)"
  using assms
  by (cases name) (simp_all add: handleServerRequest_def handleServerResponse_def is_string_def)

theorem handleServer_non_string_witness:
  "\<not> is_string (JNum 7) \<and>
   handleServerRequest reference_platform (JNum 7) (JObj [(''request'', JNum 7)])
     (new_client (JStr ''ws://b3d4'')) = (new_client (JStr ''ws://b3d4''), None) \<and>
   handleServerResponse reference_platform (JNum 7) (JObj [(''request'', JNum 7)])
     (new_client (JStr ''ws://b3d4'')) = (new_client (JStr ''ws://b3d4''), None)"
proof -
  have h: "\<not> is_string (JNum 7)"
    by (simp add: is_string_def)
  show ?thesis
    using handleServer_non_string [OF h] h by simp
qed

subsection \<open>The request correlator\<close>

lemma Get_request_Set_request:
  "Get_request (Set_request reqs key (resolve, reject)) key = Some (Entry resolve reject)"
  by (simp add: Get_request_def Set_request_def)

text \<open>
  A name that no object of the prototype chain defines behaves as a key of a dictionary:
  of two registrations the later one is resolved, and a further resolution finds nothing.
\<close>

lemma later_registration_wins_own_names:
  assumes "name \<notin> set Object_prototype" and "name \<noteq> ''resolve''" and "name \<noteq> ''reject''"
  shows "resolveClientRequest name success msg
           (registerClientRequest name resolve2 reject2
              (registerClientRequest name resolve1 reject1 st)) =
         (emit (Settled (if success then resolve2 else reject2) msg)
            (st\<lparr>openClientRequests := Delete_request (openClientRequests st) name\<rparr>), None)"
    and "resolveClientRequest name success' msg'
           (emit (Settled (if success then resolve2 else reject2) msg)
              (st\<lparr>openClientRequests := Delete_request (openClientRequests st) name\<rparr>)) =
         (emit (Settled (if success then resolve2 else reject2) msg)
            (st\<lparr>openClientRequests := Delete_request (openClientRequests st) name\<rparr>), None)"
proof -
  have n: "name \<noteq> ''__proto__''"
    using assms(1) by (auto simp: Object_prototype_def)
  show "resolveClientRequest name success msg
           (registerClientRequest name resolve2 reject2
              (registerClientRequest name resolve1 reject1 st)) =
         (emit (Settled (if success then resolve2 else reject2) msg)
            (st\<lparr>openClientRequests := Delete_request (openClientRequests st) name\<rparr>), None)"
    using n
    by (simp add: resolveClientRequest_def registerClientRequest_def Get_request_def
        Set_request_def Delete_request_def emit_def)
  show "resolveClientRequest name success' msg'
           (emit (Settled (if success then resolve2 else reject2) msg)
              (st\<lparr>openClientRequests := Delete_request (openClientRequests st) name\<rparr>)) =
         (emit (Settled (if success then resolve2 else reject2) msg)
            (st\<lparr>openClientRequests := Delete_request (openClientRequests st) name\<rparr>), None)"
    using n assms
    by (simp add: resolveClientRequest_def Get_request_def Delete_request_def emit_def)
qed

text \<open>
  Claim C5 (code bug). Under a request name that \<^verbatim>\<open>Object.prototype\<close> defines, a second
  resolution is not ignored. Two requests are registered under \<^verbatim>\<open>constructor\<close> and the
  name is resolved: the callback of the later pair is called and the entry is deleted. A
  second resolution then reads the inherited \<^verbatim>\<open>constructor\<close>, a function, takes it for
  an entry and throws a TypeError when it calls the \<^verbatim>\<open>reject\<close> it did not find. Under
  \<^verbatim>\<open>__proto__\<close> the registration replaces the prototype of the registry, which
  \<^verbatim>\<open>delete\<close> does not undo: the second resolution calls a callback of the later pair
  again. The comment at the timeout in \<^verbatim>\<open>sendRequest\<close> promises that a resolution is
  ignored when the request is already resolved.
\<close>

theorem resolved_again_under_prototype_names:
  "effects (fst (resolveClientRequest ''constructor'' True (JStr ''reply'')
      (registerClientRequest ''constructor'' (Resolve 1) (Reject 1)
         (registerClientRequest ''constructor'' (Resolve 0) (Reject 0)
            (new_client (JStr ''ws://b3d4''))))))
     = [Settled (Resolve 1) (JStr ''reply'')]
   \<and> snd (resolveClientRequest ''constructor'' False (JStr ''late'')
       (fst (resolveClientRequest ''constructor'' True (JStr ''reply'')
          (registerClientRequest ''constructor'' (Resolve 1) (Reject 1)
             (registerClientRequest ''constructor'' (Resolve 0) (Reject 0)
                (new_client (JStr ''ws://b3d4'')))))))
     = Some TypeError
   \<and> effects (fst (resolveClientRequest ''__proto__'' False (JStr ''late'')
       (fst (resolveClientRequest ''__proto__'' True (JStr ''reply'')
          (registerClientRequest ''__proto__'' (Resolve 1) (Reject 1)
             (registerClientRequest ''__proto__'' (Resolve 0) (Reject 0)
                (new_client (JStr ''ws://b3d4''))))))))
     = [Settled (Resolve 1) (JStr ''reply''), Settled (Reject 1) (JStr ''late'')]"
  by (intro conjI; code_simp)

subsection \<open>The built-in handlers\<close>








subsection \<open>A client with a session\<close>

lemma established_fields:
  "sessionId established = JStr ''s1''"
  "host established = JStr ''ws://b3d4''"
  "ws established = Some \<lparr>url = JStr ''ws://b3d4'', readyState = OPEN\<rparr>"
  "promises established = 1"
  "timers established = []"
  "Get_request (openClientRequests established) ''station_list'' = None"
  by code_simp+

subsection \<open>Reconnecting\<close>

text \<open>
  No property of the prototype chain is called \<^verbatim>\<open>connect\<close>: the resolution of that name
  finds an own entry or nothing, and does not throw.
\<close>

lemma resolve_connect:
  "snd (resolveClientRequest ''connect'' success msg st) = None"
  by (simp add: resolveClientRequest_def Get_request_def Object_prototype_def Let_def
      split: option.splits property.splits)

lemma resolveClientRequest_session:
  "sessionId (fst (resolveClientRequest r s v st)) = sessionId st"
  "stationList (fst (resolveClientRequest r s v st)) = stationList st"
  "currentStation (fst (resolveClientRequest r s v st)) = currentStation st"
  "isPreviewing (fst (resolveClientRequest r s v st)) = isPreviewing st"
  "host (fst (resolveClientRequest r s v st)) = host st"
  by (simp_all add: resolveClientRequest_def emit_def Let_def
      split: option.splits property.splits)

lemma connect_fields:
  "sessionId (fst (connect P a st)) = sessionId st"
  "stationList (fst (connect P a st)) = stationList st"
  "currentStation (fst (connect P a st)) = currentStation st"
  "isPreviewing (fst (connect P a st)) = isPreviewing st"
proof -
  let ?st1 = "case a of JStr h \<Rightarrow> st\<lparr>host := a\<rparr> | _ \<Rightarrow> st"
  let ?v = "JObj [(''status'', JStr ''ERROR''),
                  (''message'', JStr ''reset by new connect request'')]"
  obtain st2 r where c: "resolveClientRequest ''connect'' False ?v ?st1 = (st2, r)"
    by (cases "resolveClientRequest ''connect'' False ?v ?st1")
  have same: "sessionId ?st1 = sessionId st" "stationList ?st1 = stationList st"
    "currentStation ?st1 = currentStation st" "isPreviewing ?st1 = isPreviewing st"
    by (cases a; simp)+
  have kept: "sessionId st2 = sessionId st" "stationList st2 = stationList st"
    "currentStation st2 = currentStation st" "isPreviewing st2 = isPreviewing st"
    using resolveClientRequest_session [of "''connect''" False ?v ?st1] c same by simp_all
  show "sessionId (fst (connect P a st)) = sessionId st"
    "stationList (fst (connect P a st)) = stationList st"
    "currentStation (fst (connect P a st)) = currentStation st"
    "isPreviewing (fst (connect P a st)) = isPreviewing st"
    using c kept
    by (cases r; simp add: connect_def Let_def registerClientRequest_def emit_def)+
qed

lemma connect_effects_no_pending:
  assumes "Get_request (openClientRequests st) ''connect'' = None"
  shows "effects (fst (connect P JUndefined st)) =
           effects st @ (if WebSocket_accepts P (host st) then [Socket_created (host st)] else [])"
  using assms
  by (simp add: connect_def Let_def resolveClientRequest_def registerClientRequest_def emit_def)

lemma new_client_fields:
  "sessionId (new_client h) = JNull" "stationList (new_client h) = JNull"
  "currentStation (new_client h) = JNull" "isPreviewing (new_client h) = False"
proof -
  have "\<And>st keys. sessionId (fold (\<lambda>key. setMessageHandler key (Some (Builtin key))) keys st) = sessionId st
      \<and> stationList (fold (\<lambda>key. setMessageHandler key (Some (Builtin key))) keys st) = stationList st
      \<and> currentStation (fold (\<lambda>key. setMessageHandler key (Some (Builtin key))) keys st) = currentStation st
      \<and> isPreviewing (fold (\<lambda>key. setMessageHandler key (Some (Builtin key))) keys st) = isPreviewing st"
  proof -
    fix st :: client and keys
    show "sessionId (fold (\<lambda>key. setMessageHandler key (Some (Builtin key))) keys st) = sessionId st
      \<and> stationList (fold (\<lambda>key. setMessageHandler key (Some (Builtin key))) keys st) = stationList st
      \<and> currentStation (fold (\<lambda>key. setMessageHandler key (Some (Builtin key))) keys st) = currentStation st
      \<and> isPreviewing (fold (\<lambda>key. setMessageHandler key (Some (Builtin key))) keys st) = isPreviewing st"
      by (induction keys arbitrary: st) (simp_all add: setMessageHandler_def Let_def)
  qed
  then show "sessionId (new_client h) = JNull" "stationList (new_client h) = JNull"
    "currentStation (new_client h) = JNull" "isPreviewing (new_client h) = False"
    by (simp_all add: new_client_def setDefaultMessageHandlers_def)
qed

text \<open>
  Claim C8. Without a host \<^verbatim>\<open>reconnect\<close> returns a promise rejected with
  \<^verbatim>\<open>{status: 'ERROR', message: 'invalid host'}\<close> and does nothing else. With a host it is
  \<^verbatim>\<open>connect()\<close> run on the client whose transport, if any, has been closed and whose
  session id, station list, current station and previewing flag have been set to the values
  the constructor gives them; they still have these values when \<^verbatim>\<open>connect\<close> is done, and
  the transport is closed before the new one is created.
\<close>

theorem reconnect_resets_session:
  "(\<not> truthy P (host st) \<longrightarrow>
      reconnect P st =
        (st\<lparr>promises := promises st + 1,
            effects := effects st @
              [Settled (Reject (promises st))
                 (JObj [(''status'', JStr ''ERROR''), (''message'', JStr ''invalid host'')])]\<rparr>,
         Inr (promises st)))
   \<and> (truthy P (host st) \<longrightarrow>
      reconnect P st = connect P JUndefined (clear_status (ws_close st)) \<and>
      sessionId (clear_status (ws_close st)) = sessionId (new_client h) \<and>
      stationList (clear_status (ws_close st)) = stationList (new_client h) \<and>
      currentStation (clear_status (ws_close st)) = currentStation (new_client h) \<and>
      isPreviewing (clear_status (ws_close st)) = isPreviewing (new_client h) \<and>
      sessionId (fst (reconnect P st)) = JNull \<and>
      stationList (fst (reconnect P st)) = JNull \<and>
      currentStation (fst (reconnect P st)) = JNull \<and>
      isPreviewing (fst (reconnect P st)) = False \<and>
      effects (fst (reconnect P st)) =
        effects st @ (case ws st of None \<Rightarrow> [] | Some s \<Rightarrow> [Socket_closed (url s)]) @
        (if WebSocket_accepts P (host st) then [Socket_created (host st)] else []))"
proof -
  have pending: "Get_request (openClientRequests (clear_status (ws_close st))) ''connect'' = None"
    by (simp add: clear_status_def Get_request_def no_requests_def Object_prototype_def)
  have closed: "effects (clear_status (ws_close st)) =
                  effects st @ (case ws st of None \<Rightarrow> [] | Some s \<Rightarrow> [Socket_closed (url s)])"
    "host (clear_status (ws_close st)) = host st"
    by (simp_all add: clear_status_def ws_close_def emit_def split: option.splits)
  show ?thesis
    using connect_effects_no_pending [OF pending, of P] closed
    by (simp add: reconnect_def Promise_reject_def emit_def connect_fields new_client_fields)
      (simp add: clear_status_def)
qed

text \<open>
  Two instances: a client constructed without a host, whose \<^verbatim>\<open>reconnect\<close> returns a
  rejected promise and touches no transport; and the client with a session, whose
  transport is closed and replaced, and whose session id is gone.
\<close>

theorem reconnect_resets_session_witness:
  "\<not> truthy reference_platform (host (new_client JUndefined)) \<and>
   effects (fst (reconnect reference_platform (new_client JUndefined))) =
     [Settled (Reject 0) (JObj [(''status'', JStr ''ERROR''), (''message'', JStr ''invalid host'')])] \<and>
   snd (reconnect reference_platform (new_client JUndefined)) = Inr 0 \<and>
   truthy reference_platform (host established) \<and>
   sessionId established = JStr ''s1'' \<and>
   sessionId (fst (reconnect reference_platform established)) = JNull \<and>
   effects (fst (reconnect reference_platform established)) =
     effects established @ [Socket_closed (JStr ''ws://b3d4''), Socket_created (JStr ''ws://b3d4'')]"
proof -
  have f: "\<not> truthy reference_platform (host (new_client JUndefined))"
    by code_simp
  have n: "promises (new_client JUndefined) = 0" "effects (new_client JUndefined) = []"
    by code_simp+
  have "reconnect reference_platform (new_client JUndefined) =
          ((new_client JUndefined)\<lparr>promises := promises (new_client JUndefined) + 1,
             effects := effects (new_client JUndefined) @
               [Settled (Reject (promises (new_client JUndefined)))
                  (JObj [(''status'', JStr ''ERROR''), (''message'', JStr ''invalid host'')])]\<rparr>,
           Inr (promises (new_client JUndefined)))"
    by (rule reconnect_resets_session [where P = reference_platform
          and st = "new_client JUndefined" and h = JNull, THEN conjunct1, THEN mp, OF f])
  then have rejected:
    "effects (fst (reconnect reference_platform (new_client JUndefined))) =
       [Settled (Reject 0) (JObj [(''status'', JStr ''ERROR''), (''message'', JStr ''invalid host'')])]"
    "snd (reconnect reference_platform (new_client JUndefined)) = Inr 0"
    by (simp_all add: n)
  have t: "truthy reference_platform (host established)"
    unfolding established_fields by code_simp
  have a: "WebSocket_accepts reference_platform (JStr ''ws://b3d4'')"
    by code_simp
  have "sessionId (fst (reconnect reference_platform established)) = JNull \<and>
        effects (fst (reconnect reference_platform established)) =
          effects established @
          (case ws established of None \<Rightarrow> [] | Some s \<Rightarrow> [Socket_closed (url s)]) @
          (if WebSocket_accepts reference_platform (host established)
           then [Socket_created (host established)] else [])"
    using reconnect_resets_session [where P = reference_platform and st = established
        and h = JNull, THEN conjunct2, THEN mp, OF t]
    by (elim conjE, intro conjI) assumption+
  then show ?thesis
    using f rejected t a by (simp add: established_fields)
qed

subsection \<open>Timeouts\<close>

lemma state_of_promise_settle:
  "state_of_promise es p = Pending \<Longrightarrow>
   state_of_promise (es @ [Settled (Reject p) v]) p = Rejected v"
  by (induction es p rule: state_of_promise.induct) (simp_all split: if_splits)

lemma sendRequest_registers:
  assumes "truthy P (sessionId st)"
    and "get_field msg ''request'' = Inr (JStr name)" "name \<noteq> []"
    and "ws st = Some s" "readyState s \<noteq> CONNECTING"
    and "is_number timeout" "truthy P timeout"
  shows "snd (sendRequest P msg timeout st) = promises st"
    and "Get_request (openClientRequests (fst (sendRequest P msg timeout st))) name =
           Some (Entry (Resolve (promises st)) (Reject (promises st)))"
    and "timers (fst (sendRequest P msg timeout st)) = timers st @ [(timeout, name)]"
    and "\<exists>sent. effects (fst (sendRequest P msg timeout st)) = effects st @ [Sent sent]"
proof -
  obtain kvs where m: "msg = JObj kvs"
    using assms(2,3) by (cases msg) (simp_all add: get_field_def)
  have f: "field msg ''request'' = JStr name"
    using assms(2) by (simp add: field_def)
  have guard: "truthy P msg" "truthy P (field msg ''request'')"
    using m f assms(3) by (simp_all add: truthy_def)
  obtain msg' where w: "set_field msg ''session_id'' (sessionId st) = Inr msg'"
    using m by (simp add: set_field_def)
  let ?st1 = "registerClientRequest name (Resolve (promises st)) (Reject (promises st))
                (st\<lparr>promises := promises st + 1\<rparr>)"
  have send: "sendMessage P msg ?st1 = (emit (Sent msg') ?st1, None)"
    using assms(1,4,5) w by (simp add: sendMessage_def registerClientRequest_def)
  have run: "sendRequest P msg timeout st =
               ((emit (Sent msg') ?st1)\<lparr>timers := timers (emit (Sent msg') ?st1) @ [(timeout, name)]\<rparr>,
                promises st)"
    using assms(1,6,7) guard f send
    by (simp add: sendRequest_def Let_def property_key_def)
  show "snd (sendRequest P msg timeout st) = promises st"
    and "Get_request (openClientRequests (fst (sendRequest P msg timeout st))) name =
           Some (Entry (Resolve (promises st)) (Reject (promises st)))"
    and "timers (fst (sendRequest P msg timeout st)) = timers st @ [(timeout, name)]"
    and "\<exists>sent. effects (fst (sendRequest P msg timeout st)) = effects st @ [Sent sent]"
    unfolding run by (simp_all add: emit_def registerClientRequest_def Get_request_Set_request)
qed

lemma timeout_fires_rejects:
  assumes "i < length (timers st)" "snd (timers st ! i) = name"
    and "Get_request (openClientRequests st) name = Some (Entry resolve reject)"
  shows "effects (fst (timeout_fires i st)) =
           effects st @ [Settled reject (JObj [(''session_id'', sessionId st),
                                               (''message'', JStr ''timed out'')])]"
    and "snd (timeout_fires i st) = None"
  using assms by (simp_all add: timeout_fires_def resolveClientRequest_def emit_def)

text \<open>
  Claim C4, as amended. A call of \<^verbatim>\<open>sendRequest\<close> on a client with a session and a
  transport that takes the message, with a request name and a timeout that is a number
  other than 0: a read of the registry under the name finds the callbacks of the returned
  promise, and the timeout is scheduled. When the timeout fires while the registry still
  holds under the name what the call has left there, and the promise is pending, the
  callback of the timeout returns and the promise is rejected with an object whose
  \<^verbatim>\<open>message\<close> is \<^verbatim>\<open>timed out\<close>.
\<close>

theorem sendRequest_times_out:
  assumes "truthy P (sessionId st)"
    and "get_field msg ''request'' = Inr (JStr name)" "name \<noteq> []"
    and "ws st = Some s" "readyState s \<noteq> CONNECTING"
    and "is_number timeout" "truthy P timeout"
    and "sendRequest P msg timeout st = (st1, p)"
    and "i < length (timers later)" "timers later ! i = (timeout, name)"
    and "Get_request (openClientRequests later) name = Get_request (openClientRequests st1) name"
    and "state_of_promise (effects later) p = Pending"
  shows "Get_request (openClientRequests st1) name = Some (Entry (Resolve p) (Reject p)) \<and>
         timers st1 = timers st @ [(timeout, name)] \<and>
         snd (timeout_fires i later) = None \<and>
         (\<exists>rejection.
            state_of_promise (effects (fst (timeout_fires i later))) p = Rejected rejection \<and>
            get_field rejection ''message'' = Inr (JStr ''timed out''))"
proof -
  have p: "p = promises st"
    using sendRequest_registers(1) [OF assms(1-7)] assms(8) by simp
  have entry: "Get_request (openClientRequests st1) name = Some (Entry (Resolve p) (Reject p))"
    using sendRequest_registers(2) [OF assms(1-7)] assms(8) p by simp
  have tm: "timers st1 = timers st @ [(timeout, name)]"
    using sendRequest_registers(3) [OF assms(1-7)] assms(8) by simp
  have later: "Get_request (openClientRequests later) name = Some (Entry (Resolve p) (Reject p))"
    using entry assms(11) by simp
  have name: "snd (timers later ! i) = name"
    using assms(10) by simp
  let ?rejection = "JObj [(''session_id'', sessionId later), (''message'', JStr ''timed out'')]"
  have "state_of_promise (effects (fst (timeout_fires i later))) p = Rejected ?rejection"
    using timeout_fires_rejects(1) [OF assms(9) name later]
      state_of_promise_settle [OF assms(12)] by simp
  moreover have "get_field ?rejection ''message'' = Inr (JStr ''timed out'')"
    by (simp add: get_field_def own_member_def)
  ultimately have "\<exists>rejection.
            state_of_promise (effects (fst (timeout_fires i later))) p = Rejected rejection \<and>
            get_field rejection ''message'' = Inr (JStr ''timed out'')"
    by (intro exI [of _ ?rejection] conjI)
  then show ?thesis
    using entry tm timeout_fires_rejects(2) [OF assms(9) name later]
    by (intro conjI) assumption+
qed

text \<open>
  An instance: the scenario of the specification, \<^verbatim>\<open>sendRequest({request: 'station_list'}, 50)\<close>
  on the client with a session, and the timeout firing with no reply in between.
\<close>

theorem sendRequest_times_out_witness:
  "state_of_promise
     (effects (fst (timeout_fires 0
        (fst (sendRequest reference_platform (JObj [(''request'', JStr ''station_list'')])
                (JNum 50) established)))))
     (snd (sendRequest reference_platform (JObj [(''request'', JStr ''station_list'')])
             (JNum 50) established))
   = Rejected (JObj [(''session_id'', JStr ''s1''), (''message'', JStr ''timed out'')])
   \<and> snd (timeout_fires 0
        (fst (sendRequest reference_platform (JObj [(''request'', JStr ''station_list'')])
                (JNum 50) established))) = None"
proof -
  let ?msg = "JObj [(''request'', JStr ''station_list'')]"
  let ?run = "sendRequest reference_platform ?msg (JNum 50) established"
  have session: "truthy reference_platform (sessionId established)"
    unfolding established_fields by code_simp
  have request: "get_field ?msg ''request'' = Inr (JStr ''station_list'')" "''station_list'' \<noteq> []"
    by code_simp+
  have transport: "ws established = Some \<lparr>url = JStr ''ws://b3d4'', readyState = OPEN\<rparr>"
    "readyState \<lparr>url = JStr ''ws://b3d4'', readyState = OPEN\<rparr> \<noteq> CONNECTING"
    by (simp_all add: established_fields)
  have timeout: "is_number (JNum 50)" "truthy reference_platform (JNum 50)"
    by code_simp+
  have run: "?run = (fst ?run, snd ?run)"
    by simp
  have timer: "0 < length (timers (fst ?run))" "timers (fst ?run) ! 0 = (JNum 50, ''station_list'')"
    by code_simp+
  have pending: "state_of_promise (effects (fst ?run)) (snd ?run) = Pending"
    by code_simp
  have fired: "snd (timeout_fires 0 (fst ?run)) = None \<and>
       (\<exists>rejection.
          state_of_promise (effects (fst (timeout_fires 0 (fst ?run)))) (snd ?run) = Rejected rejection \<and>
          get_field rejection ''message'' = Inr (JStr ''timed out''))"
    using sendRequest_times_out [OF session request transport timeout run timer refl pending]
    by (elim conjE, intro conjI) assumption+
  have "state_of_promise (effects (fst (timeout_fires 0 (fst ?run)))) (snd ?run) =
          Rejected (JObj [(''session_id'', JStr ''s1''), (''message'', JStr ''timed out'')])"
    by code_simp
  then show ?thesis
    using fired by (intro conjI) (assumption | elim conjE)+
qed

text \<open>
  The claim as stated fails where a later request of the same name supersedes the call:
  \<^verbatim>\<open>sendRequest({request: 'station_list'}, 50)\<close> returns promise 1, a second
  \<^verbatim>\<open>sendRequest({request: 'station_list'})\<close> returns promise 2 and takes over the entry,
  no reply arrives, and the timeout of the first call fires. The promise of the first call
  is still pending, with no entry and no timer left that could settle it; the timeout has
  rejected the promise of the second call, with an object of two fields, \<^verbatim>\<open>session_id\<close>
  and \<^verbatim>\<open>message\<close>.
\<close>

theorem sendRequest_superseded_counterexample:
  "snd (sendRequest reference_platform (JObj [(''request'', JStr ''station_list'')]) (JNum 50)
          established) = 1
   \<and> snd (sendRequest reference_platform (JObj [(''request'', JStr ''station_list'')]) JUndefined
          (fst (sendRequest reference_platform (JObj [(''request'', JStr ''station_list'')])
                  (JNum 50) established))) = 2
   \<and> state_of_promise
         (effects (fst (timeout_fires 0
            (fst (sendRequest reference_platform (JObj [(''request'', JStr ''station_list'')])
                    JUndefined
                    (fst (sendRequest reference_platform
                            (JObj [(''request'', JStr ''station_list'')]) (JNum 50)
                            established))))))) 1
       = Pending
   \<and> timers (fst (timeout_fires 0
            (fst (sendRequest reference_platform (JObj [(''request'', JStr ''station_list'')])
                    JUndefined
                    (fst (sendRequest reference_platform
                            (JObj [(''request'', JStr ''station_list'')]) (JNum 50)
                            established)))))) = []
   \<and> Get_request (openClientRequests (fst (timeout_fires 0
            (fst (sendRequest reference_platform (JObj [(''request'', JStr ''station_list'')])
                    JUndefined
                    (fst (sendRequest reference_platform
                            (JObj [(''request'', JStr ''station_list'')]) (JNum 50)
                            established))))))) ''station_list'' = None
   \<and> state_of_promise
         (effects (fst (timeout_fires 0
            (fst (sendRequest reference_platform (JObj [(''request'', JStr ''station_list'')])
                    JUndefined
                    (fst (sendRequest reference_platform
                            (JObj [(''request'', JStr ''station_list'')]) (JNum 50)
                            established))))))) 2
       = Rejected (JObj [(''session_id'', JStr ''s1''), (''message'', JStr ''timed out'')])"
  by code_simp

subsection \<open>The scenario frame\<close>







end
